theory Spec2Isabelle
  imports Main "HOL-Library.Word" "HOL-Library.Signed_Division"
begin

section \<open>Traffic light controller (Project_6/main/main.c)\<close>

text \<open>
  The controller is a single global context driven by a polling loop. The model passes the
  context and the peripherals it writes (GPIO levels, the LEDC duty of the buzzer channel,
  the log) as one record. The driver calls of ESP-IDF are outside the repository; they are
  modelled by their effect on that record and as returning \<open>ESP_OK\<close>.

  The clock is the only input. Every call of \<open>millis()\<close> reads \<open>esp_timer_get_time()\<close>
  afresh, so every function of the model takes one raw timer reading (microseconds, 64 bit)
  for each read its body can perform, in the order of the reads.
\<close>

type_synonym uint32_t = "32 word"
type_synonym int64_t = "64 word"

subsection \<open>Constants\<close>

abbreviation RED_LED_PIN :: nat where "RED_LED_PIN \<equiv> 2"
abbreviation YELLOW_LED_PIN :: nat where "YELLOW_LED_PIN \<equiv> 4"
abbreviation GREEN_LED_PIN :: nat where "GREEN_LED_PIN \<equiv> 15"
abbreviation LEDC_DUTY :: nat where "LEDC_DUTY \<equiv> 4096"

abbreviation RED_DURATION :: uint32_t where "RED_DURATION \<equiv> 5000"
abbreviation RED_TO_YELLOW_DURATION :: uint32_t where "RED_TO_YELLOW_DURATION \<equiv> 2000"
abbreviation GREEN_DURATION :: uint32_t where "GREEN_DURATION \<equiv> 5000"
abbreviation GREEN_TO_YELLOW_DURATION :: uint32_t where "GREEN_TO_YELLOW_DURATION \<equiv> 2000"
abbreviation BEEP_INTERVAL :: uint32_t where "BEEP_INTERVAL \<equiv> 1000"
abbreviation BEEP_DURATION :: uint32_t where "BEEP_DURATION \<equiv> 200"

text \<open>
  \<open>TrafficLightState\<close> is a C enum: an integer type whose named values are 0 to 4. The
  dispatcher has a \<open>default\<close> branch for every other value, so the state id is an integer
  here and not a four-constructor datatype, which would make that branch unreachable.
\<close>

type_synonym TrafficLightState = int

abbreviation STATE_RED :: TrafficLightState where "STATE_RED \<equiv> 0"
abbreviation STATE_RED_TO_YELLOW :: TrafficLightState where "STATE_RED_TO_YELLOW \<equiv> 1"
abbreviation STATE_GREEN :: TrafficLightState where "STATE_GREEN \<equiv> 2"
abbreviation STATE_GREEN_TO_YELLOW :: TrafficLightState where "STATE_GREEN_TO_YELLOW \<equiv> 3"
abbreviation STATE_MAX :: TrafficLightState where "STATE_MAX \<equiv> 4"

definition state_names :: "string list" where
  "state_names = [''RED (STOP)'', ''YELLOW (READY)'', ''GREEN (GO - Safe to Cross)'',
                  ''YELLOW (CAUTION)'']"

definition state_durations :: "uint32_t list" where
  "state_durations = [RED_DURATION, RED_TO_YELLOW_DURATION, GREEN_DURATION,
                      GREEN_TO_YELLOW_DURATION]"

subsection \<open>Context and peripherals\<close>

record TrafficLightContext =
  current_state :: TrafficLightState
  state_start_time :: uint32_t
  last_beep_time :: uint32_t
  beep_active :: bool

text \<open>
  A log line keeps the arguments of its format string. Lines of \<open>ESP_LOGD\<close> are kept as
  well; at the default log level they print nothing.
\<close>

datatype log_event =
    Log_Info string
  | Log_Transition string string
  | Log_Unknown_State int
  | Log_Beep

text \<open>
  \<open>state_names[i]\<close> is read without a range check in the source. For an index outside the
  four-element array the read is out of bounds, and the pointer it yields is handed to a
  \<open>%s\<close> format: undefined behaviour in C, a fault here. A call that faults ends there; its
  result is the fault together with the system as it was at the undefined read.
\<close>

datatype fault = Out_Of_Bounds_Read

record system =
  traffic_context :: TrafficLightContext
  gpio_level :: "nat \<Rightarrow> nat"
  ledc_duty :: nat
  logged :: "log_event list"

definition initial_context :: TrafficLightContext where
  "initial_context =
     \<lparr>current_state = STATE_RED, state_start_time = 0, last_beep_time = 0,
      beep_active = False\<rparr>"

type_synonym outcome = "(fault \<times> system) + system"

definition state_name :: "int \<Rightarrow> fault + string" where
  "state_name i =
     (if 0 \<le> i \<and> i < 4 then Inr (state_names ! nat i) else Inl Out_Of_Bounds_Read)"

definition esp_log :: "log_event \<Rightarrow> system \<Rightarrow> system" where
  "esp_log e w = w\<lparr>logged := logged w @ [e]\<rparr>"

definition gpio_set_level :: "nat \<Rightarrow> nat \<Rightarrow> system \<Rightarrow> system" where
  "gpio_set_level pin level w = w\<lparr>gpio_level := (gpio_level w)(pin := level)\<rparr>"

definition ledc_set_duty :: "nat \<Rightarrow> system \<Rightarrow> system" where
  "ledc_set_duty duty w = w\<lparr>ledc_duty := duty\<rparr>"

subsection \<open>The functions of main.c\<close>

definition millis :: "int64_t \<Rightarrow> uint32_t" where
  "millis t = ucast (t div 1000)"

definition turn_off_all_lights :: "system \<Rightarrow> system" where
  "turn_off_all_lights w =
     gpio_set_level GREEN_LED_PIN 0
       (gpio_set_level YELLOW_LED_PIN 0 (gpio_set_level RED_LED_PIN 0 w))"

definition init_traffic_leds :: "system \<Rightarrow> system" where
  "init_traffic_leds w =
     esp_log (Log_Info ''Traffic LEDs initialized (R:%d, Y:%d, G:%d)'') (turn_off_all_lights w)"

definition init_buzzer :: "system \<Rightarrow> system" where
  "init_buzzer w =
     esp_log (Log_Info ''Buzzer initialized on GPIO%d at %d Hz'') (ledc_set_duty 0 w)"

definition set_traffic_light :: "TrafficLightState \<Rightarrow> system \<Rightarrow> system" where
  "set_traffic_light state w =
     (let w1 = turn_off_all_lights w in
      if state = STATE_RED then gpio_set_level RED_LED_PIN 1 w1
      else if state = STATE_RED_TO_YELLOW \<or> state = STATE_GREEN_TO_YELLOW
        then gpio_set_level YELLOW_LED_PIN 1 w1
      else if state = STATE_GREEN then gpio_set_level GREEN_LED_PIN 1 w1
      else w1)"

definition beep_on :: "system \<Rightarrow> system" where
  "beep_on w =
     (let w1 = ledc_set_duty LEDC_DUTY w in
      w1\<lparr>traffic_context := (traffic_context w1)\<lparr>beep_active := True\<rparr>\<rparr>)"

definition beep_off :: "system \<Rightarrow> system" where
  "beep_off w =
     (let w1 = ledc_set_duty 0 w in
      w1\<lparr>traffic_context := (traffic_context w1)\<lparr>beep_active := False\<rparr>\<rparr>)"

text \<open>
  The log line comes first: both names are read from \<open>state_names\<close> before the context is
  written.
\<close>

definition transition_to_state :: "int64_t \<Rightarrow> TrafficLightState \<Rightarrow> system \<Rightarrow> outcome" where
  "transition_to_state t new_state w =
     (case state_name (current_state (traffic_context w)) of
        Inl f \<Rightarrow> Inl (f, w)
      | Inr old_name \<Rightarrow>
          (case state_name new_state of
             Inl f \<Rightarrow> Inl (f, w)
           | Inr new_name \<Rightarrow>
               (let w1 = esp_log (Log_Transition old_name new_name) w;
                    w2 = w1\<lparr>traffic_context := (traffic_context w1)
                            \<lparr>current_state := new_state, state_start_time := millis t,
                             last_beep_time := 0\<rparr>\<rparr>;
                    w3 = beep_off w2
                in Inr (set_traffic_light new_state w3))))"

definition handle_state_red :: "int64_t \<Rightarrow> int64_t \<Rightarrow> system \<Rightarrow> outcome" where
  "handle_state_red t1 t2 w =
     (let elapsed = millis t1 - state_start_time (traffic_context w) in
      if elapsed \<ge> state_durations ! nat STATE_RED
      then transition_to_state t2 STATE_RED_TO_YELLOW w else Inr w)"

definition handle_state_red_to_yellow :: "int64_t \<Rightarrow> int64_t \<Rightarrow> system \<Rightarrow> outcome" where
  "handle_state_red_to_yellow t1 t2 w =
     (let elapsed = millis t1 - state_start_time (traffic_context w) in
      if elapsed \<ge> state_durations ! nat STATE_RED_TO_YELLOW
      then transition_to_state t2 STATE_GREEN w else Inr w)"

definition handle_state_green :: "int64_t \<Rightarrow> int64_t \<Rightarrow> system \<Rightarrow> outcome" where
  "handle_state_green t1 t2 w =
     (let current_time = millis t1;
          elapsed = current_time - state_start_time (traffic_context w);
          w1 = (if last_beep_time (traffic_context w) = 0 \<or>
                   current_time - last_beep_time (traffic_context w) \<ge> BEEP_INTERVAL
                then (let wa = beep_on w;
                          wb = wa\<lparr>traffic_context := (traffic_context wa)
                                    \<lparr>last_beep_time := current_time\<rparr>\<rparr>
                      in esp_log Log_Beep wb)
                else w);
          w2 = (if beep_active (traffic_context w1) \<and>
                   current_time - last_beep_time (traffic_context w1) \<ge> BEEP_DURATION
                then beep_off w1 else w1)
      in if elapsed \<ge> state_durations ! nat STATE_GREEN
         then transition_to_state t2 STATE_GREEN_TO_YELLOW (beep_off w2) else Inr w2)"

definition handle_state_green_to_yellow :: "int64_t \<Rightarrow> int64_t \<Rightarrow> system \<Rightarrow> outcome" where
  "handle_state_green_to_yellow t1 t2 w =
     (let elapsed = millis t1 - state_start_time (traffic_context w) in
      if elapsed \<ge> state_durations ! nat STATE_GREEN_TO_YELLOW
      then transition_to_state t2 STATE_RED w else Inr w)"

text \<open>
  \<open>t1\<close> is the first timer reading of the call and \<open>t2\<close> the second. The \<open>default\<close> branch
  reads the timer once, inside \<open>transition_to_state\<close>.
\<close>

definition state_machine_run :: "int64_t \<Rightarrow> int64_t \<Rightarrow> system \<Rightarrow> outcome" where
  "state_machine_run t1 t2 w =
     (let s = current_state (traffic_context w) in
      if s = STATE_RED then handle_state_red t1 t2 w
      else if s = STATE_RED_TO_YELLOW then handle_state_red_to_yellow t1 t2 w
      else if s = STATE_GREEN then handle_state_green t1 t2 w
      else if s = STATE_GREEN_TO_YELLOW then handle_state_green_to_yellow t1 t2 w
      else transition_to_state t1 STATE_RED (esp_log (Log_Unknown_State s) w))"

text \<open>
  \<open>app_main\<close> up to its loop: the peripherals are initialised, then the context is written
  directly. \<open>t\<close> is the timer reading of its \<open>millis()\<close> call.
\<close>

definition app_main_init :: "int64_t \<Rightarrow> system \<Rightarrow> system" where
  "app_main_init t w =
     (let w1 = esp_log (Log_Info ''================================================'') w;
          w2 = esp_log (Log_Info ''  Automated Traffic Light System'') w1;
          w3 = esp_log (Log_Info ''  (Blind-Friendly with Audio Cues)'') w2;
          w4 = esp_log (Log_Info ''================================================'') w3;
          w5 = init_buzzer (init_traffic_leds w4);
          w6 = w5\<lparr>traffic_context := (traffic_context w5)
                  \<lparr>current_state := STATE_RED, state_start_time := millis t\<rparr>\<rparr>;
          w7 = esp_log (Log_Info ''Traffic light system started'') w6;
          w8 = esp_log (Log_Info ''Audio cues enabled during GREEN phase'') w7
      in esp_log (Log_Info (''================================================'' @ [CHR 0x0A]))
           w8)"

text \<open>
  The loop \<open>while(1) { state_machine_run(); vTaskDelay(...); }\<close> never returns; its finite
  prefixes are the folds of \<open>state_machine_run\<close> over the timer readings of each iteration.
  A fault ends the run.
\<close>

fun main_loop :: "(int64_t \<times> int64_t) list \<Rightarrow> system \<Rightarrow> outcome" where
  "main_loop [] w = Inr w"
| "main_loop ((t1, t2) # ts) w =
     (case state_machine_run t1 t2 w of
        Inl f \<Rightarrow> Inl f
      | Inr w' \<Rightarrow> main_loop ts w')"

text \<open>The state of the program after start-up at reading \<open>t0\<close> and the polls \<open>ts\<close>.\<close>

definition app_main :: "int64_t \<Rightarrow> (int64_t \<times> int64_t) list \<Rightarrow> system \<Rightarrow> outcome" where
  "app_main t0 ts w =
     main_loop ts (app_main_init t0 (w\<lparr>traffic_context := initial_context\<rparr>))"

definition is_transition :: "log_event \<Rightarrow> bool" where
  "is_transition e = (case e of Log_Transition _ _ \<Rightarrow> True | _ \<Rightarrow> False)"

definition transition_count :: "system \<Rightarrow> nat" where
  "transition_count w = length (filter is_transition (logged w))"


section \<open>Police siren (Project_2/main/main.c)\<close>

text \<open>
  The globals of the program and the peripherals its loop writes. \<open>buzzer_freq\<close> is a C
  \<open>int\<close>; it is an unbounded integer here, and the invariant proved below keeps it in
  600..1200, far inside the range of \<open>int\<close>, so no step of a run overflows.
\<close>

abbreviation RED_LED :: nat where "RED_LED \<equiv> 18"
abbreviation BLUE_LED :: nat where "BLUE_LED \<equiv> 19"
abbreviation LED_TIME_MS :: "64 word" where "LED_TIME_MS \<equiv> 200"
abbreviation BUZZER_TIME_MS :: "64 word" where "BUZZER_TIME_MS \<equiv> 5"

definition FREQ_MIN :: int where "FREQ_MIN = 600"
definition FREQ_MAX :: int where "FREQ_MAX = 1200"
definition FREQ_STEP :: int where "FREQ_STEP = 5"

datatype siren_event =
    Siren_Info string
  | Led_Switched bool bool
  | Reached_Max
  | Reached_Min
  | Buzzer_Started int
  | Buzzer_Frequency int

record siren =
  led_on :: bool
  freq_up :: bool
  buzzer_freq :: int
  last_led_time :: "64 word"
  last_buzzer_time :: "64 word"
  siren_gpio :: "nat \<Rightarrow> bool"
  siren_timer_freq :: int
  siren_duty :: nat
  siren_log :: "siren_event list"

definition siren_globals :: "siren \<Rightarrow> siren" where
  "siren_globals w =
     w\<lparr>led_on := False, freq_up := True, buzzer_freq := FREQ_MIN,
       last_led_time := 0, last_buzzer_time := 0\<rparr>"

definition buzzer_start :: "siren \<Rightarrow> siren" where
  "buzzer_start w =
     w\<lparr>siren_timer_freq := buzzer_freq w, siren_duty := 950,
       siren_log := siren_log w @ [Siren_Info ''Initializing buzzer PWM'',
                                   Buzzer_Started (buzzer_freq w)]\<rparr>"

text \<open>
  One iteration of \<open>while (1)\<close> in \<open>app_main\<close>; \<open>t\<close> is the reading of
  \<open>esp_timer_get_time()\<close>, divided as a signed 64-bit integer.
\<close>

definition siren_iteration :: "int64_t \<Rightarrow> siren \<Rightarrow> siren" where
  "siren_iteration t w =
     (let now = (word_of_int (sint t sdiv 1000) :: 64 word);
          w1 = (if now - last_led_time w \<ge> LED_TIME_MS
                then (let l = \<not> led_on w in
                      w\<lparr>led_on := l,
                        siren_gpio := (siren_gpio w)(RED_LED := l, BLUE_LED := \<not> l),
                        siren_log := siren_log w @ [Led_Switched l (\<not> l)],
                        last_led_time := now\<rparr>)
                else w)
      in if now - last_buzzer_time w1 \<ge> BUZZER_TIME_MS
         then (let w2 = (if freq_up w1
                         then (let wa = w1\<lparr>buzzer_freq := buzzer_freq w1 + FREQ_STEP\<rparr> in
                               if buzzer_freq wa \<ge> FREQ_MAX
                               then wa\<lparr>freq_up := False,
                                       siren_log := siren_log wa @ [Reached_Max]\<rparr>
                               else wa)
                         else (let wa = w1\<lparr>buzzer_freq := buzzer_freq w1 - FREQ_STEP\<rparr> in
                               if buzzer_freq wa \<le> FREQ_MIN
                               then wa\<lparr>freq_up := True,
                                       siren_log := siren_log wa @ [Reached_Min]\<rparr>
                               else wa))
               in w2\<lparr>siren_timer_freq := buzzer_freq w2,
                      siren_log := siren_log w2 @ [Buzzer_Frequency (buzzer_freq w2)],
                      last_buzzer_time := now\<rparr>)
         else w1)"

fun siren_loop :: "int64_t list \<Rightarrow> siren \<Rightarrow> siren" where
  "siren_loop [] w = w"
| "siren_loop (t # ts) w = siren_loop ts (siren_iteration t w)"

text \<open>\<open>app_main\<close> before its loop: the LED pins are configured, the buzzer is started.\<close>

definition siren_setup :: "siren \<Rightarrow> siren" where
  "siren_setup w =
     (let w1 = w\<lparr>siren_log := siren_log w @ [Siren_Info ''Police Siren Project Started'']\<rparr>;
          w2 = w1\<lparr>siren_log := siren_log w1 @ [Siren_Info ''LED GPIO configured'']\<rparr>
      in buzzer_start w2)"

text \<open>The program after start-up and the loop iterations with the timer readings \<open>ts\<close>.\<close>

definition siren_main :: "int64_t list \<Rightarrow> siren \<Rightarrow> siren" where
  "siren_main ts w = siren_loop ts (siren_setup (siren_globals w))"


section \<open>Melody player (Project_3/main/main.c)\<close>

abbreviation NOTE_F4 :: int where "NOTE_F4 \<equiv> 349"
abbreviation NOTE_GS4 :: int where "NOTE_GS4 \<equiv> 415"
abbreviation NOTE_A4 :: int where "NOTE_A4 \<equiv> 440"
abbreviation NOTE_B4 :: int where "NOTE_B4 \<equiv> 494"
abbreviation NOTE_C5 :: int where "NOTE_C5 \<equiv> 523"
abbreviation NOTE_CS5 :: int where "NOTE_CS5 \<equiv> 554"
abbreviation NOTE_D5 :: int where "NOTE_D5 \<equiv> 587"
abbreviation NOTE_DS5 :: int where "NOTE_DS5 \<equiv> 622"
abbreviation NOTE_E5 :: int where "NOTE_E5 \<equiv> 659"
abbreviation NOTE_F5 :: int where "NOTE_F5 \<equiv> 698"
abbreviation NOTE_G5 :: int where "NOTE_G5 \<equiv> 784"
abbreviation NOTE_GS5 :: int where "NOTE_GS5 \<equiv> 831"
abbreviation NOTE_A5 :: int where "NOTE_A5 \<equiv> 880"
abbreviation REST :: int where "REST \<equiv> 0"

definition TEMPO :: int where "TEMPO = 120"
definition WHOLE_NOTE :: int where "WHOLE_NOTE = (60000 * 4) div TEMPO"

text \<open>
  What C leaves undefined in \<open>calc_duration\<close> is an error value of the model: the integer
  division by zero, and \<open>abs\<close> of the least 32-bit \<open>int\<close>.
\<close>

datatype c_error = Division_By_Zero | Abs_Overflow

text \<open>
  The dotted branch multiplies the integer quotient \<open>q\<close> by the double 1.5 and converts the
  product back to \<open>int\<close>. For \<open>0 \<le> q \<le> WHOLE_NOTE\<close> the product is exact in a double and
  the conversion truncates it, which is \<open>(q * 3) div 2\<close>.
\<close>

definition calc_duration :: "int \<Rightarrow> c_error + int" where
  "calc_duration divider =
     (if divider > 0 then Inr (WHOLE_NOTE div divider)
      else if divider = - (2 ^ 31) then Inl Abs_Overflow
      else if \<bar>divider\<bar> = 0 then Inl Division_By_Zero
      else Inr (((WHOLE_NOTE div \<bar>divider\<bar>) * 3) div 2))"

definition imperial_march_raw :: "(int \<times> int) list" where
  "imperial_march_raw = [
    (NOTE_A4, - 4), (NOTE_A4, - 4), (NOTE_A4, 16), (NOTE_A4, 16),
    (NOTE_A4, 16), (NOTE_A4, 16), (NOTE_F4, 8), (REST, 8),
    (NOTE_A4, - 4), (NOTE_A4, - 4), (NOTE_A4, 16), (NOTE_A4, 16),
    (NOTE_A4, 16), (NOTE_A4, 16), (NOTE_F4, 8), (REST, 8),
    (NOTE_A4, 4), (NOTE_A4, 4), (NOTE_A4, 4), (NOTE_F4, - 8), (NOTE_C5, 16),
    (NOTE_A4, 4), (NOTE_F4, - 8), (NOTE_C5, 16), (NOTE_A4, 2),
    (NOTE_E5, 4), (NOTE_E5, 4), (NOTE_E5, 4), (NOTE_F5, - 8), (NOTE_C5, 16),
    (NOTE_A4, 4), (NOTE_F4, - 8), (NOTE_C5, 16), (NOTE_A4, 2),
    (NOTE_A5, 4), (NOTE_A4, - 8), (NOTE_A4, 16), (NOTE_A5, 4),
    (NOTE_GS5, - 8), (NOTE_G5, 16),
    (NOTE_DS5, 16), (NOTE_D5, 16), (NOTE_DS5, 8), (REST, 8),
    (NOTE_A4, 8), (NOTE_DS5, 4), (NOTE_D5, - 8), (NOTE_CS5, 16),
    (NOTE_C5, 16), (NOTE_B4, 16), (NOTE_C5, 16), (REST, 8),
    (NOTE_F4, 8), (NOTE_GS4, 4), (NOTE_F4, - 8), (NOTE_A4, - 16),
    (NOTE_C5, 4), (NOTE_A4, - 8), (NOTE_C5, 16), (NOTE_E5, 2),
    (NOTE_A5, 4), (NOTE_A4, - 8), (NOTE_A4, 16), (NOTE_A5, 4),
    (NOTE_GS5, - 8), (NOTE_G5, 16),
    (NOTE_DS5, 16), (NOTE_D5, 16), (NOTE_DS5, 8), (REST, 8),
    (NOTE_A4, 8), (NOTE_DS5, 4), (NOTE_D5, - 8), (NOTE_CS5, 16),
    (NOTE_C5, 16), (NOTE_B4, 16), (NOTE_C5, 16), (REST, 8),
    (NOTE_F4, 8), (NOTE_GS4, 4), (NOTE_F4, - 8), (NOTE_A4, - 16),
    (NOTE_A4, 4), (NOTE_F4, - 8), (NOTE_C5, 16), (NOTE_A4, 2)]"

definition MELODY_LENGTH :: nat where
  "MELODY_LENGTH = length imperial_march_raw"

text \<open>
  \<open>play_melody\<close> calls \<open>play_note(frequency, duration)\<close> once per table row. The model
  returns the arguments of these calls in order, or the error of the first row whose
  duration is undefined. The loop counter \<open>i\<close> runs from 0 while \<open>i < MELODY_LENGTH\<close>.
\<close>

function play_melody_from :: "nat \<Rightarrow> (int \<times> int) list \<Rightarrow> c_error + (int \<times> int) list" where
  "play_melody_from i played =
     (if i < MELODY_LENGTH
      then (let frequency = fst (imperial_march_raw ! i);
                divider = snd (imperial_march_raw ! i)
            in case calc_duration divider of
                 Inl e \<Rightarrow> Inl e
               | Inr duration \<Rightarrow> play_melody_from (i + 1) (played @ [(frequency, duration)]))
      else Inr played)"
  by pat_completeness auto
termination
  by (relation "measure (\<lambda>(i, played). MELODY_LENGTH - i)") auto

declare play_melody_from.simps [simp del]

definition play_melody :: "c_error + (int \<times> int) list" where
  "play_melody = play_melody_from 0 []"


section \<open>SOS Morse beacon (Project_4/main/main.c)\<close>

definition TIME_UNIT :: int where "TIME_UNIT = 200"
definition DOT_DURATION :: int where "DOT_DURATION = TIME_UNIT * 1"
definition DASH_DURATION :: int where "DASH_DURATION = TIME_UNIT * 3"
definition SYMBOL_SPACE :: int where "SYMBOL_SPACE = TIME_UNIT * 1"
definition LETTER_SPACE :: int where "LETTER_SPACE = TIME_UNIT * 3"
definition WORD_SPACE :: int where "WORD_SPACE = TIME_UNIT * 7"

text \<open>
  \<open>MorseSymbol\<close> is a C enum, an integer type: the array \<open>sos_pattern\<close> holds integers, and
  the millisecond macro \<open>SYMBOL_SPACE\<close> is accepted as one of its elements.
\<close>

type_synonym MorseSymbol = int

definition DOT :: MorseSymbol where "DOT = 0"
definition DASH :: MorseSymbol where "DASH = 1"
definition SPACE_SYMBOL :: MorseSymbol where "SPACE_SYMBOL = 2"
definition SPACE_LETTER :: MorseSymbol where "SPACE_LETTER = 3"
definition SPACE_WORD :: MorseSymbol where "SPACE_WORD = 4"

definition sos_pattern :: "MorseSymbol list" where
  "sos_pattern = [
     DOT, SYMBOL_SPACE, DOT, SYMBOL_SPACE, DOT,
     SPACE_LETTER,
     DASH, SYMBOL_SPACE, DASH, SYMBOL_SPACE, DASH,
     SPACE_LETTER,
     DOT, SYMBOL_SPACE, DOT, SYMBOL_SPACE, DOT,
     SPACE_WORD]"

definition PATTERN_LENGTH :: nat where
  "PATTERN_LENGTH = length sos_pattern"

text \<open>
  \<open>morse_buffer\<close> is the 128-byte array with its NUL bytes; \<open>signal\<close> lists, for every
  \<open>vTaskDelay\<close> of the program, the LED level and the buzzer duty during the delay and the
  milliseconds asked for.
\<close>

record beacon =
  morse_buffer :: "char list"
  morse_pos :: int
  led_level :: nat
  buzzer_duty :: nat
  signal :: "(nat \<times> nat \<times> int) list"
  beacon_log :: "string list"

abbreviation NUL :: char where "NUL \<equiv> CHR 0x00"

definition c_string :: "char list \<Rightarrow> string" where
  "c_string buf = takeWhile (\<lambda>c. c \<noteq> NUL) buf"

definition strcpy_at :: "nat \<Rightarrow> string \<Rightarrow> char list \<Rightarrow> char list" where
  "strcpy_at pos str buf = take pos buf @ str @ [NUL] @ drop (pos + length str + 1) buf"

definition signal_on :: "int \<Rightarrow> beacon \<Rightarrow> beacon" where
  "signal_on duration_ms b =
     (let b1 = b\<lparr>led_level := 1, buzzer_duty := LEDC_DUTY\<rparr> in
      b1\<lparr>signal := signal b1 @ [(led_level b1, buzzer_duty b1, duration_ms)]\<rparr>)"

definition signal_off :: "int \<Rightarrow> beacon \<Rightarrow> beacon" where
  "signal_off duration_ms b =
     (let b1 = b\<lparr>led_level := 0, buzzer_duty := 0\<rparr> in
      b1\<lparr>signal := signal b1 @ [(led_level b1, buzzer_duty b1, duration_ms)]\<rparr>)"

text \<open>
  The guard compares \<open>morse_pos + len\<close>, converted to \<open>size_t\<close>, with
  \<open>sizeof(morse_buffer) - 1 = 127\<close>; a negative sum converts to a value above 127.
\<close>

definition morse_buffer_add :: "string \<Rightarrow> beacon \<Rightarrow> beacon" where
  "morse_buffer_add str b =
     (let len = int (length str) in
      if 0 \<le> morse_pos b + len \<and> morse_pos b + len < 128 - 1
      then b\<lparr>morse_buffer := strcpy_at (nat (morse_pos b)) str (morse_buffer b),
             morse_pos := morse_pos b + len\<rparr>
      else b)"

definition morse_buffer_clear :: "beacon \<Rightarrow> beacon" where
  "morse_buffer_clear b = b\<lparr>morse_buffer := (morse_buffer b)[0 := NUL], morse_pos := 0\<rparr>"

text \<open>The \<open>switch\<close> has five cases and no \<open>default\<close>: any other value falls through it.\<close>

definition transmit_symbol :: "MorseSymbol \<Rightarrow> beacon \<Rightarrow> beacon" where
  "transmit_symbol symbol b =
     (if symbol = DOT then signal_on DOT_DURATION (morse_buffer_add ''.'' b)
      else if symbol = DASH then signal_on DASH_DURATION (morse_buffer_add ''-'' b)
      else if symbol = SPACE_SYMBOL then signal_off SPACE_SYMBOL b
      else if symbol = SPACE_LETTER then signal_off LETTER_SPACE (morse_buffer_add '' '' b)
      else if symbol = SPACE_WORD then signal_off WORD_SPACE b
      else b)"

fun transmit_all :: "MorseSymbol list \<Rightarrow> beacon \<Rightarrow> beacon" where
  "transmit_all [] b = b"
| "transmit_all (s # ss) b = transmit_all ss (transmit_symbol s b)"

definition transmit_sos :: "beacon \<Rightarrow> beacon" where
  "transmit_sos b =
     (let b1 = transmit_all sos_pattern (morse_buffer_clear b) in
      b1\<lparr>beacon_log := beacon_log b1 @ [''Transmitted SOS: '' @ c_string (morse_buffer b1)]\<rparr>)"

text \<open>The beacon at the start of the loop: the static buffer is zeroed, the signal is off.\<close>

definition beacon_start :: beacon where
  "beacon_start =
     \<lparr>morse_buffer = replicate 128 NUL, morse_pos = 0, led_level = 0, buzzer_duty = 0,
      signal = [], beacon_log = []\<rparr>"


section \<open>Notions used in the statements and proofs\<close>

text \<open>
  The expiry test of the four state handlers: the unsigned 32-bit difference between the
  clock reading of the poll and the entry timestamp, compared with the duration of the
  current state.
\<close>

definition expired :: "int64_t \<Rightarrow> system \<Rightarrow> bool" where
  "expired t1 w \<longleftrightarrow>
     state_durations ! nat (current_state (traffic_context w))
       \<le> millis t1 - state_start_time (traffic_context w)"

text \<open>A controller before \<open>app_main\<close> runs: the static context, nothing driven, nothing logged.\<close>

definition boot_system :: system where
  "boot_system =
     \<lparr>traffic_context = initial_context, gpio_level = (\<lambda>_. 0), ledc_duty = 0, logged = []\<rparr>"


text \<open>
  A controller in GREEN: entered at clock value \<open>start\<close>, the last beep started at
  \<open>last_beep\<close> (0: none yet in this visit), the buzzer driven exactly when a beep is active.
\<close>

definition green_system :: "uint32_t \<Rightarrow> uint32_t \<Rightarrow> bool \<Rightarrow> system" where
  "green_system start last_beep active =
     boot_system
       \<lparr>traffic_context :=
          \<lparr>current_state = STATE_GREEN, state_start_time = start,
           last_beep_time = last_beep, beep_active = active\<rparr>,
        ledc_duty := (if active then LEDC_DUTY else 0)\<rparr>"

text \<open>
  The timer readings of \<open>n\<close> polls, the first at \<open>t\<close> and one every \<open>p\<close> microseconds; a
  transition reads the same value as its poll.
\<close>

primrec poll_every :: "int64_t \<Rightarrow> int64_t \<Rightarrow> nat \<Rightarrow> (int64_t \<times> int64_t) list" where
  "poll_every t p 0 = []"
| "poll_every t p (Suc n) = (t, t) # poll_every (t + p) p n"

text \<open>
  What a run leaves behind: whether a beep is active, and the clock value at which the last
  beep started. A run that faulted leaves neither.
\<close>

definition beeping :: "outcome \<Rightarrow> bool" where
  "beeping r = (case r of Inl _ \<Rightarrow> False | Inr w \<Rightarrow> beep_active (traffic_context w))"

definition last_beep :: "outcome \<Rightarrow> uint32_t option" where
  "last_beep r = (case r of Inl _ \<Rightarrow> None | Inr w \<Rightarrow> Some (last_beep_time (traffic_context w)))"

text \<open>
  The schedule in the words of the specification: beeps at a 1000 ms cadence, each lasting
  200 ms, the first of them starting at clock value \<open>first\<close>.
\<close>

definition claimed_beep_on :: "uint32_t \<Rightarrow> uint32_t \<Rightarrow> bool" where
  "claimed_beep_on first now \<longleftrightarrow> unat (now - first) mod 1000 < 200"

text \<open>The guard of the frequency update in the siren loop, at timer reading \<open>t\<close>.\<close>

definition buzzer_due :: "int64_t \<Rightarrow> siren \<Rightarrow> bool" where
  "buzzer_due t w \<longleftrightarrow>
     BUZZER_TIME_MS \<le> (word_of_int (sint t sdiv 1000) :: 64 word) - last_buzzer_time w"

text \<open>A siren before \<open>app_main\<close> runs: the static globals, nothing driven or logged.\<close>

definition siren_boot :: siren where
  "siren_boot =
     \<lparr>led_on = False, freq_up = True, buzzer_freq = FREQ_MIN, last_led_time = 0,
      last_buzzer_time = 0, siren_gpio = (\<lambda>_. False), siren_timer_freq = 0, siren_duty = 0,
      siren_log = []\<rparr>"

text \<open>
  The invariant of the siren: the frequency is a multiple of the step inside the range, and
  the direction flag is up only below the maximum and down only above the minimum.
\<close>

definition siren_inv :: "siren \<Rightarrow> bool" where
  "siren_inv w \<longleftrightarrow>
     FREQ_MIN \<le> buzzer_freq w \<and> buzzer_freq w \<le> FREQ_MAX \<and> FREQ_STEP dvd buzzer_freq w \<and>
     (if freq_up w then buzzer_freq w < FREQ_MAX else FREQ_MIN < buzzer_freq w)"

text \<open>What \<open>transmit_symbol\<close> appends to the Morse buffer for a symbol.\<close>

definition morse_text :: "MorseSymbol \<Rightarrow> string" where
  "morse_text symbol =
     (if symbol = DOT then ''.'' else if symbol = DASH then ''-''
      else if symbol = SPACE_LETTER then '' '' else [])"

text \<open>
  The buffer of the beacon holds the C string \<open>s\<close>: the 128 bytes start with \<open>s\<close> and a NUL,
  and \<open>morse_pos\<close> is the length of \<open>s\<close>.
\<close>

definition buffer_holds :: "beacon \<Rightarrow> string \<Rightarrow> bool" where
  "buffer_holds b s \<longleftrightarrow>
     length (morse_buffer b) = 128 \<and> morse_pos b = int (length s) \<and> length s < 128 \<and>
     take (length s) (morse_buffer b) = s \<and> morse_buffer b ! length s = NUL \<and>
     NUL \<notin> set s"


section \<open>Verification\<close>

subsection \<open>Traffic light: what one poll does\<close>

lemmas tl_defs = state_machine_run_def handle_state_red_def handle_state_red_to_yellow_def
  handle_state_green_def handle_state_green_to_yellow_def transition_to_state_def
  state_name_def beep_on_def beep_off_def set_traffic_light_def turn_off_all_lights_def
  gpio_set_level_def ledc_set_duty_def esp_log_def

lemmas init_defs = app_main_def app_main_init_def init_buzzer_def init_traffic_leds_def
  boot_system_def initial_context_def

lemma run_in_range:
  assumes "current_state (traffic_context w) \<in> {0, 1, 2, 3}"
  shows "\<exists>w'. state_machine_run t1 t2 w = Inr w' \<and>
           current_state (traffic_context w') =
             (if expired t1 w then (current_state (traffic_context w) + 1) mod 4
              else current_state (traffic_context w)) \<and>
           state_start_time (traffic_context w') =
             (if expired t1 w then millis t2 else state_start_time (traffic_context w)) \<and>
           transition_count w' =
             (if expired t1 w then transition_count w + 1 else transition_count w)"
  using assms
  by (auto simp add: expired_def tl_defs transition_count_def is_transition_def Let_def)

lemma run_out_of_range:
  assumes "current_state (traffic_context w) \<notin> {0, 1, 2, 3}"
  shows "state_machine_run t1 t2 w =
           Inl (Out_Of_Bounds_Read, esp_log (Log_Unknown_State (current_state (traffic_context w))) w)"
  using assms
  by (auto simp add: state_machine_run_def transition_to_state_def state_name_def esp_log_def
        Let_def)

lemma main_loop_keeps_range:
  "current_state (traffic_context w) \<in> {0, 1, 2, 3} \<Longrightarrow>
   \<exists>w'. main_loop ts w = Inr w' \<and> current_state (traffic_context w') \<in> {0, 1, 2, 3}"
proof (induction ts arbitrary: w)
  case Nil
  then show ?case by simp
next
  case (Cons p ts)
  obtain t1 t2 where p: "p = (t1, t2)" by (cases p)
  from run_in_range [OF Cons.prems, of t1 t2] obtain w1
    where r: "state_machine_run t1 t2 w = Inr w1"
      and s: "current_state (traffic_context w1) =
                (if expired t1 w then (current_state (traffic_context w) + 1) mod 4
                 else current_state (traffic_context w))"
    by blast
  from s Cons.prems have "current_state (traffic_context w1) \<in> {0, 1, 2, 3}"
    by auto
  then obtain w' where "main_loop ts w1 = Inr w'"
    and "current_state (traffic_context w') \<in> {0, 1, 2, 3}"
    using Cons.IH by blast
  then show ?case by (simp add: p r)
qed

lemma app_main_in_range:
  "\<exists>w. app_main t0 ts w0 = Inr w \<and> current_state (traffic_context w) \<in> {0, 1, 2, 3}"
  unfolding app_main_def
  by (rule main_loop_keeps_range)
     (simp add: app_main_init_def init_buzzer_def init_traffic_leds_def tl_defs Let_def)

lemma unat_add_le_sum:
  fixes x y :: "32 word"
  shows "unat (x + y) \<le> unat x + unat y"
  unfolding unat_word_ariths by (rule mod_less_eq_dividend)

lemma unat_sub_split:
  fixes a b c :: "32 word"
  shows "unat (a - c) \<le> unat (b - c) + unat (a - b)"
  using unat_add_le_sum [of "b - c" "a - b"] by simp

subsection \<open>Traffic light: the cycle and its timing\<close>

text \<open>
  Claim C1. The duration table is RED 5000 ms, RED_TO_YELLOW 2000 ms, GREEN 5000 ms,
  GREEN_TO_YELLOW 2000 ms. The program reaches a state after start-up and any number of
  polls, whatever the clock readings, without a fault; that state is one of the four
  states 0..3, and from such a state \<open>s\<close> a poll at which the duration has expired moves to
  \<open>(s + 1) mod 4\<close>, that is RED, RED_TO_YELLOW, GREEN, GREEN_TO_YELLOW and back to RED; a
  poll before expiry keeps \<open>s\<close>.
\<close>

theorem traffic_light_cycle:
  "state_durations = [5000, 2000, 5000, 2000] \<and>
   (\<exists>w. app_main t0 ts w0 = Inr w \<and>
      current_state (traffic_context w)
        \<in> {STATE_RED, STATE_RED_TO_YELLOW, STATE_GREEN, STATE_GREEN_TO_YELLOW} \<and>
      (\<exists>w'. state_machine_run t1 t2 w = Inr w' \<and>
         (expired t1 w \<longrightarrow>
            current_state (traffic_context w') = (current_state (traffic_context w) + 1) mod 4) \<and>
         (\<not> expired t1 w \<longrightarrow>
            current_state (traffic_context w') = current_state (traffic_context w))))"
proof -
  from app_main_in_range [of t0 ts w0] obtain w
    where a: "app_main t0 ts w0 = Inr w"
      and r: "current_state (traffic_context w) \<in> {0, 1, 2, 3}"
    by blast
  from run_in_range [OF r, of t1 t2] obtain w'
    where "state_machine_run t1 t2 w = Inr w'"
      and "current_state (traffic_context w') =
             (if expired t1 w then (current_state (traffic_context w) + 1) mod 4
              else current_state (traffic_context w))"
    by blast
  with a r show ?thesis by (auto simp add: state_durations_def)
qed

theorem traffic_light_cycle_witness:
  "\<exists>w. app_main 0 [(5000000, 5000000), (7000000, 7000000)] boot_system = Inr w \<and>
      current_state (traffic_context w) = STATE_GREEN \<and>
      expired 12000000 w \<and>
      (\<exists>w'. state_machine_run 12000000 12000000 w = Inr w' \<and>
         current_state (traffic_context w') = STATE_GREEN_TO_YELLOW)"
  using traffic_light_cycle
          [of 0 "[(5000000, 5000000), (7000000, 7000000)]" boot_system 12000000 12000000]
  by (simp add: init_defs tl_defs expired_def millis_def state_durations_def state_names_def
        Let_def)

text \<open>
  Claim C2. In a state \<open>s\<close> of the cycle with duration \<open>d\<close>, a poll returns without a
  fault. If its elapsed time (clock reading minus entry timestamp, unsigned) is below \<open>d\<close>
  it changes neither the state nor the entry timestamp and logs no transition; if the
  elapsed time is at least \<open>d\<close> it performs the transition to the next state and stamps it
  with the clock. If an earlier instant of the same visit (the entry or the previous poll)
  had elapsed time below \<open>d\<close> and lies at most \<open>p\<close> ms before the poll that transitions, the
  elapsed time at the transition is in \<open>[d, d + p)\<close>.
\<close>

theorem transition_only_at_expiry:
  assumes "current_state (traffic_context w) \<in> {0, 1, 2, 3}"
  shows "\<exists>w'. state_machine_run t1 t2 w = Inr w' \<and>
         (millis t1 - state_start_time (traffic_context w)
            < state_durations ! nat (current_state (traffic_context w)) \<longrightarrow>
          current_state (traffic_context w') = current_state (traffic_context w) \<and>
          state_start_time (traffic_context w') = state_start_time (traffic_context w) \<and>
          transition_count w' = transition_count w) \<and>
         (state_durations ! nat (current_state (traffic_context w))
            \<le> millis t1 - state_start_time (traffic_context w) \<longrightarrow>
          current_state (traffic_context w') = (current_state (traffic_context w) + 1) mod 4 \<and>
          state_start_time (traffic_context w') = millis t2 \<and>
          transition_count w' = transition_count w + 1) \<and>
         (unat (millis tp - state_start_time (traffic_context w))
            < unat (state_durations ! nat (current_state (traffic_context w))) \<and>
          unat (millis t1 - millis tp) \<le> p \<and>
          transition_count w' = transition_count w + 1 \<longrightarrow>
          unat (state_durations ! nat (current_state (traffic_context w)))
            \<le> unat (millis t1 - state_start_time (traffic_context w)) \<and>
          unat (millis t1 - state_start_time (traffic_context w))
            < unat (state_durations ! nat (current_state (traffic_context w))) + p)"
proof -
  let ?s = "current_state (traffic_context w)"
  let ?d = "state_durations ! nat ?s"
  let ?st = "state_start_time (traffic_context w)"
  from run_in_range [OF assms, of t1 t2] obtain w'
    where r: "state_machine_run t1 t2 w = Inr w'"
      and cs: "current_state (traffic_context w') =
                 (if expired t1 w then (?s + 1) mod 4 else ?s)"
      and st: "state_start_time (traffic_context w') =
                 (if expired t1 w then millis t2 else ?st)"
      and tc: "transition_count w' =
                 (if expired t1 w then transition_count w + 1 else transition_count w)"
    by blast
  have a: "millis t1 - ?st < ?d \<longrightarrow>
          current_state (traffic_context w') = ?s \<and>
          state_start_time (traffic_context w') = ?st \<and>
          transition_count w' = transition_count w"
  proof (intro impI)
    assume "millis t1 - ?st < ?d"
    then have ne: "\<not> expired t1 w" by (simp add: expired_def not_le)
    show "current_state (traffic_context w') = ?s \<and>
          state_start_time (traffic_context w') = ?st \<and>
          transition_count w' = transition_count w"
      by (simp only: cs st tc ne if_False simp_thms)
  qed
  have b: "?d \<le> millis t1 - ?st \<longrightarrow>
          current_state (traffic_context w') = (?s + 1) mod 4 \<and>
          state_start_time (traffic_context w') = millis t2 \<and>
          transition_count w' = transition_count w + 1"
  proof (intro impI)
    assume "?d \<le> millis t1 - ?st"
    then have ex: "expired t1 w" by (simp add: expired_def)
    show "current_state (traffic_context w') = (?s + 1) mod 4 \<and>
          state_start_time (traffic_context w') = millis t2 \<and>
          transition_count w' = transition_count w + 1"
      by (simp only: cs st tc ex if_True simp_thms)
  qed
  have c: "unat (millis tp - ?st) < unat ?d \<and> unat (millis t1 - millis tp) \<le> p \<and>
           transition_count w' = transition_count w + 1 \<longrightarrow>
           unat ?d \<le> unat (millis t1 - ?st) \<and> unat (millis t1 - ?st) < unat ?d + p"
  proof (intro impI)
    assume h: "unat (millis tp - ?st) < unat ?d \<and> unat (millis t1 - millis tp) \<le> p \<and>
               transition_count w' = transition_count w + 1"
    then have ex: "expired t1 w" using tc by (simp split: if_splits)
    then have lo: "unat ?d \<le> unat (millis t1 - ?st)"
      by (simp add: expired_def word_le_nat_alt)
    have "unat (millis t1 - ?st) \<le> unat (millis tp - ?st) + unat (millis t1 - millis tp)"
      by (rule unat_sub_split)
    with h have "unat (millis t1 - ?st) < unat ?d + p" by linarith
    with lo show "unat ?d \<le> unat (millis t1 - ?st) \<and> unat (millis t1 - ?st) < unat ?d + p"
      by simp
  qed
  from r a b c show ?thesis by blast
qed

theorem transition_only_at_expiry_witness:
  "current_state (traffic_context (app_main_init 0 boot_system)) \<in> {0, 1, 2, 3} \<and>
   unat (millis 4995000 - state_start_time (traffic_context (app_main_init 0 boot_system)))
     < unat (state_durations !
              nat (current_state (traffic_context (app_main_init 0 boot_system)))) \<and>
   unat (millis 5005000 - millis 4995000) \<le> 10 \<and>
   (\<exists>w'. state_machine_run 4995000 4995000 (app_main_init 0 boot_system) = Inr w' \<and>
      current_state (traffic_context w') = STATE_RED) \<and>
   (\<exists>w'. state_machine_run 5005000 5005000 (app_main_init 0 boot_system) = Inr w' \<and>
      current_state (traffic_context w') = STATE_RED_TO_YELLOW \<and>
      transition_count w' = transition_count (app_main_init 0 boot_system) + 1) \<and>
   unat (millis 5005000 - state_start_time (traffic_context (app_main_init 0 boot_system)))
     = 5005"
  using transition_only_at_expiry [of "app_main_init 0 boot_system" 5005000 5005000 4995000 10]
        transition_only_at_expiry [of "app_main_init 0 boot_system" 4995000 4995000 4995000 10]
  by (simp add: init_defs tl_defs millis_def state_durations_def state_names_def
        transition_count_def is_transition_def Let_def)

text \<open>
  Claim C6. One call of \<open>state_machine_run\<close> logs at most one transition, whatever the
  clock readings and however long ago the state was entered. From a state \<open>s\<close> of the
  cycle the call returns in \<open>s\<close> or in its successor \<open>(s + 1) mod 4\<close>. From any other state
  id the call faults before any transition is logged, with the state id unchanged.
\<close>

theorem one_transition_per_poll:
  "(state_machine_run t1 t2 w = Inr w' \<longrightarrow> transition_count w' \<le> transition_count w + 1) \<and>
   (current_state (traffic_context w) \<in> {0, 1, 2, 3} \<longrightarrow>
      (\<exists>v. state_machine_run t1 t2 w = Inr v \<and>
         transition_count v \<le> transition_count w + 1 \<and>
         (current_state (traffic_context v) = current_state (traffic_context w) \<or>
          current_state (traffic_context v) = (current_state (traffic_context w) + 1) mod 4))) \<and>
   (current_state (traffic_context w) \<notin> {0, 1, 2, 3} \<longrightarrow>
      (\<exists>v. state_machine_run t1 t2 w = Inl (Out_Of_Bounds_Read, v) \<and>
         transition_count v = transition_count w \<and>
         current_state (traffic_context v) = current_state (traffic_context w)))"
proof (cases "current_state (traffic_context w) \<in> {0, 1, 2, 3}")
  case True
  from run_in_range [OF True, of t1 t2] obtain v
    where r: "state_machine_run t1 t2 w = Inr v"
      and cs: "current_state (traffic_context v) =
                 (if expired t1 w then (current_state (traffic_context w) + 1) mod 4
                  else current_state (traffic_context w))"
      and tc: "transition_count v =
                 (if expired t1 w then transition_count w + 1 else transition_count w)"
    by blast
  have "transition_count v \<le> transition_count w + 1" using tc by simp
  moreover have "current_state (traffic_context v) = current_state (traffic_context w) \<or>
     current_state (traffic_context v) = (current_state (traffic_context w) + 1) mod 4"
    using cs by (simp split: if_splits)
  ultimately show ?thesis using True r by auto
next
  case False
  have "state_machine_run t1 t2 w =
          Inl (Out_Of_Bounds_Read,
               esp_log (Log_Unknown_State (current_state (traffic_context w))) w)"
    using False by (rule run_out_of_range)
  moreover have "transition_count
                   (esp_log (Log_Unknown_State (current_state (traffic_context w))) w)
                 = transition_count w"
    by (simp add: transition_count_def esp_log_def is_transition_def)
  moreover have "current_state (traffic_context
                   (esp_log (Log_Unknown_State (current_state (traffic_context w))) w))
                 = current_state (traffic_context w)"
    by (simp add: esp_log_def)
  ultimately show ?thesis using False by auto
qed

theorem one_transition_per_poll_witness:
  "unat (millis 20000000 - state_start_time (traffic_context (app_main_init 0 boot_system)))
     \<ge> 5000 + 2000 + 5000 + 2000 \<and>
   current_state (traffic_context (app_main_init 0 boot_system)) = STATE_RED \<and>
   (\<exists>v. state_machine_run 20000000 20000000 (app_main_init 0 boot_system) = Inr v \<and>
      current_state (traffic_context v) = STATE_RED_TO_YELLOW \<and>
      transition_count v = transition_count (app_main_init 0 boot_system) + 1) \<and>
   current_state (traffic_context
     (boot_system\<lparr>traffic_context := initial_context\<lparr>current_state := STATE_MAX\<rparr>\<rparr>))
     \<notin> {0, 1, 2, 3} \<and>
   (\<exists>v. state_machine_run 0 0
           (boot_system\<lparr>traffic_context := initial_context\<lparr>current_state := STATE_MAX\<rparr>\<rparr>)
         = Inl (Out_Of_Bounds_Read, v) \<and> current_state (traffic_context v) = STATE_MAX)"
  using one_transition_per_poll [of 20000000 20000000 "app_main_init 0 boot_system"]
        one_transition_per_poll
          [of 0 0 "boot_system\<lparr>traffic_context := initial_context\<lparr>current_state := STATE_MAX\<rparr>\<rparr>"]
  by (simp add: init_defs tl_defs millis_def state_durations_def state_names_def
        transition_count_def is_transition_def Let_def)

subsection \<open>Traffic light: start-up and the unknown state\<close>

text \<open>
  Claim C4. Start-up (\<open>app_main\<close> before its loop) sets the state to RED and the entry
  timestamp to the clock reading, but it never calls \<open>set_traffic_light\<close>: the three LEDs
  are left at level 0, as \<open>init_traffic_leds\<close> put them. The entry action
  \<open>set_traffic_light(STATE_RED)\<close> drives the red LED to 1, and every later entry into RED
  goes through \<open>transition_to_state\<close>, which calls it.
\<close>

theorem app_main_init_red_led_off:
  "current_state (traffic_context (app_main_init t w)) = STATE_RED \<and>
   state_start_time (traffic_context (app_main_init t w)) = millis t \<and>
   gpio_level (app_main_init t w) RED_LED_PIN = 0 \<and>
   gpio_level (app_main_init t w) YELLOW_LED_PIN = 0 \<and>
   gpio_level (app_main_init t w) GREEN_LED_PIN = 0 \<and>
   gpio_level (set_traffic_light STATE_RED w) RED_LED_PIN = 1 \<and>
   (current_state (traffic_context w) \<in> {0, 1, 2, 3} \<longrightarrow>
      (\<exists>w'. transition_to_state t STATE_RED w = Inr w' \<and> gpio_level w' RED_LED_PIN = 1))"
  by (auto simp add: app_main_init_def init_buzzer_def init_traffic_leds_def tl_defs Let_def)

theorem app_main_init_red_led_off_witness:
  "current_state (traffic_context boot_system) \<in> {0, 1, 2, 3} \<and>
   gpio_level (app_main_init 0 boot_system) RED_LED_PIN = 0 \<and>
   (\<exists>w'. transition_to_state 14000000 STATE_RED
            (boot_system\<lparr>traffic_context :=
               initial_context\<lparr>current_state := STATE_GREEN_TO_YELLOW\<rparr>\<rparr>) = Inr w' \<and>
      gpio_level w' RED_LED_PIN = 1)"
  using app_main_init_red_led_off [of 0 boot_system]
        app_main_init_red_led_off
          [of 14000000
              "boot_system\<lparr>traffic_context :=
                 initial_context\<lparr>current_state := STATE_GREEN_TO_YELLOW\<rparr>\<rparr>"]
  by (simp add: boot_system_def initial_context_def)

text \<open>
  Claim C5. When the dispatcher runs with a state id outside 0..3, its \<open>default\<close> branch
  logs the unknown state and calls \<open>transition_to_state(STATE_RED)\<close>. The first statement
  there is the log line, which reads \<open>state_names\<close> at the unknown id, outside the array:
  the call faults at that read, after the error line and before the state, the timestamp
  or the LEDs are written. The state id is still the unknown one, and a run of polls ends
  with that fault.
\<close>

theorem unknown_state_out_of_bounds_read:
  assumes "current_state (traffic_context w) < 0 \<or> current_state (traffic_context w) > 3"
  shows "state_machine_run t1 t2 w =
           Inl (Out_Of_Bounds_Read,
                esp_log (Log_Unknown_State (current_state (traffic_context w))) w) \<and>
         traffic_context (esp_log (Log_Unknown_State (current_state (traffic_context w))) w)
           = traffic_context w \<and>
         gpio_level (esp_log (Log_Unknown_State (current_state (traffic_context w))) w)
           = gpio_level w \<and>
         main_loop ((t1, t2) # ts) w =
           Inl (Out_Of_Bounds_Read,
                esp_log (Log_Unknown_State (current_state (traffic_context w))) w)"
proof -
  from assms have "current_state (traffic_context w) \<notin> {0, 1, 2, 3}" by auto
  then have "state_machine_run t1 t2 w =
           Inl (Out_Of_Bounds_Read,
                esp_log (Log_Unknown_State (current_state (traffic_context w))) w)"
    by (rule run_out_of_range)
  then show ?thesis by (simp add: esp_log_def)
qed

theorem unknown_state_out_of_bounds_read_witness:
  "current_state (traffic_context
     (boot_system\<lparr>traffic_context := initial_context\<lparr>current_state := STATE_MAX\<rparr>\<rparr>)) > 3 \<and>
   state_machine_run 9000000 9000000
     (boot_system\<lparr>traffic_context := initial_context\<lparr>current_state := STATE_MAX\<rparr>\<rparr>) =
   Inl (Out_Of_Bounds_Read,
        boot_system\<lparr>traffic_context := initial_context\<lparr>current_state := STATE_MAX\<rparr>,
                    logged := [Log_Unknown_State STATE_MAX]\<rparr>)"
  using unknown_state_out_of_bounds_read
          [of "boot_system\<lparr>traffic_context := initial_context\<lparr>current_state := STATE_MAX\<rparr>\<rparr>"
              9000000 9000000 "[]"]
  by (simp add: boot_system_def initial_context_def esp_log_def)

subsection \<open>Traffic light: the 32-bit clock\<close>

lemma unat_millis: "unat (millis t) = (unat t div 1000) mod 2 ^ 32"
  by (simp add: millis_def unsigned_ucast_eq take_bit_eq_mod unat_div)

lemma uint_word_diff32:
  fixes a b :: "32 word"
  shows "uint (a - b) = (uint a - uint b) mod 2 ^ 32"
  by (simp add: uint_word_ariths)

lemma uint_millis: "uint (millis t) = int (unat t div 1000) mod 2 ^ 32"
proof -
  have "uint (millis t) = int (unat (millis t))" by simp
  also have "\<dots> = int ((unat t div 1000) mod 2 ^ 32)" by (simp only: unat_millis)
  also have "\<dots> = int (unat t div 1000) mod 2 ^ 32" by (simp add: zmod_int)
  finally show ?thesis .
qed

lemma millis_diff:
  assumes "unat ts \<le> unat tn"
      and "unat tn div 1000 - unat ts div 1000 < 2 ^ 32"
  shows "unat (millis tn - millis ts) = unat tn div 1000 - unat ts div 1000"
proof -
  let ?A = "int (unat tn div 1000)" and ?B = "int (unat ts div 1000)"
  have le: "unat ts div 1000 \<le> unat tn div 1000" using assms(1) by (rule div_le_mono)
  have e: "?A - ?B = int (unat tn div 1000 - unat ts div 1000)"
    using le by (simp add: of_nat_diff)
  have "uint (millis tn - millis ts) = (?A mod 2 ^ 32 - ?B mod 2 ^ 32) mod 2 ^ 32"
    by (simp only: uint_word_diff32 uint_millis)
  also have "\<dots> = (?A - ?B) mod 2 ^ 32" by (simp only: mod_diff_eq)
  also have "\<dots> = int (unat tn div 1000 - unat ts div 1000) mod 2 ^ 32" by (simp only: e)
  also have "\<dots> = int (unat tn div 1000 - unat ts div 1000)"
    using assms(2) by (intro mod_pos_pos_trivial) simp_all
  finally have "int (unat (millis tn - millis ts)) = int (unat tn div 1000 - unat ts div 1000)"
    by simp
  then show ?thesis by (simp only: of_nat_eq_iff)
qed

text \<open>
  Claim C7. Let the timer read \<open>t_start\<close> when a state is entered and \<open>t_now\<close> at a later
  poll, and let the true elapsed time in whole clock milliseconds,
  \<open>t_now div 1000 - t_start div 1000\<close>, be below \<open>2 ^ 32\<close>. Then the unsigned 32-bit
  difference of the two \<open>millis\<close> values is that elapsed time, also when the 32-bit clock
  has wrapped in between, the comparison with any duration \<open>d\<close> decides on the true elapsed
  time, and so does the transition taken by the poll.
\<close>

theorem elapsed_wraparound_safe:
  assumes "unat t_start \<le> unat t_now"
      and "unat t_now div 1000 - unat t_start div 1000 < 2 ^ 32"
  shows "unat (millis t_now - millis t_start) = unat t_now div 1000 - unat t_start div 1000 \<and>
         (d \<le> millis t_now - millis t_start \<longleftrightarrow>
            unat d \<le> unat t_now div 1000 - unat t_start div 1000) \<and>
         (current_state (traffic_context w) \<in> {0, 1, 2, 3} \<and>
          state_start_time (traffic_context w) = millis t_start \<longrightarrow>
            (\<exists>w'. state_machine_run t_now t2 w = Inr w' \<and>
               current_state (traffic_context w') =
                 (if unat (state_durations ! nat (current_state (traffic_context w)))
                       \<le> unat t_now div 1000 - unat t_start div 1000
                  then (current_state (traffic_context w) + 1) mod 4
                  else current_state (traffic_context w))))"
proof -
  have e: "unat (millis t_now - millis t_start) = unat t_now div 1000 - unat t_start div 1000"
    using assms by (rule millis_diff)
  have c: "\<And>c. (c \<le> millis t_now - millis t_start) \<longleftrightarrow>
            unat c \<le> unat t_now div 1000 - unat t_start div 1000"
    by (simp only: word_le_nat_alt e)
  have r: "current_state (traffic_context w) \<in> {0, 1, 2, 3} \<and>
          state_start_time (traffic_context w) = millis t_start \<longrightarrow>
            (\<exists>w'. state_machine_run t_now t2 w = Inr w' \<and>
               current_state (traffic_context w') =
                 (if unat (state_durations ! nat (current_state (traffic_context w)))
                       \<le> unat t_now div 1000 - unat t_start div 1000
                  then (current_state (traffic_context w) + 1) mod 4
                  else current_state (traffic_context w)))"
  proof (intro impI)
    assume h: "current_state (traffic_context w) \<in> {0, 1, 2, 3} \<and>
          state_start_time (traffic_context w) = millis t_start"
    then have x: "expired t_now w \<longleftrightarrow>
      unat (state_durations ! nat (current_state (traffic_context w)))
        \<le> unat t_now div 1000 - unat t_start div 1000"
      by (simp add: expired_def c)
    from h have "current_state (traffic_context w) \<in> {0, 1, 2, 3}" by simp
    from run_in_range [OF this, of t_now t2] show
      "\<exists>w'. state_machine_run t_now t2 w = Inr w' \<and>
               current_state (traffic_context w') =
                 (if unat (state_durations ! nat (current_state (traffic_context w)))
                       \<le> unat t_now div 1000 - unat t_start div 1000
                  then (current_state (traffic_context w) + 1) mod 4
                  else current_state (traffic_context w))"
      unfolding x by blast
  qed
  from e c [of d] r show ?thesis by blast
qed

theorem elapsed_wraparound_safe_witness:
  "unat (4294967000000 :: int64_t) \<le> unat (4294972000000 :: int64_t) \<and>
   millis 4294972000000 < millis 4294967000000 \<and>
   unat (millis 4294972000000 - millis 4294967000000) = 5000 \<and>
   (\<exists>w. transition_to_state 4294967000000 STATE_RED
           (boot_system\<lparr>traffic_context :=
              initial_context\<lparr>current_state := STATE_GREEN_TO_YELLOW\<rparr>\<rparr>) = Inr w \<and>
      state_start_time (traffic_context w) = millis 4294967000000 \<and>
      (\<exists>w'. state_machine_run 4294972000000 4294972000000 w = Inr w' \<and>
         current_state (traffic_context w') = STATE_RED_TO_YELLOW))"
proof -
  define w where "w = set_traffic_light STATE_RED (beep_off
     ((esp_log (Log_Transition ''YELLOW (CAUTION)'' ''RED (STOP)'')
        (boot_system\<lparr>traffic_context :=
           initial_context\<lparr>current_state := STATE_GREEN_TO_YELLOW\<rparr>\<rparr>))
      \<lparr>traffic_context :=
         \<lparr>current_state = STATE_RED, state_start_time = millis 4294967000000,
          last_beep_time = 0, beep_active = False\<rparr>\<rparr>))"
  have t: "transition_to_state 4294967000000 STATE_RED
           (boot_system\<lparr>traffic_context :=
              initial_context\<lparr>current_state := STATE_GREEN_TO_YELLOW\<rparr>\<rparr>) = Inr w"
    by (simp add: w_def transition_to_state_def state_name_def state_names_def Let_def
          esp_log_def boot_system_def initial_context_def)
  have s: "current_state (traffic_context w) \<in> {0, 1, 2, 3}"
          "state_start_time (traffic_context w) = millis 4294967000000"
    by (simp_all add: w_def tl_defs Let_def)
  have cs: "current_state (traffic_context w) = STATE_RED"
    by (simp add: w_def tl_defs Let_def)
  show ?thesis
    using elapsed_wraparound_safe [of 4294967000000 4294972000000 5000 w 4294972000000] t s
    by (simp add: cs state_durations_def millis_def)
qed

subsection \<open>Traffic light: the beep in GREEN\<close>

lemma green_poll:
  assumes "current_state (traffic_context w) = STATE_GREEN" and "\<not> expired t1 w"
  shows "\<exists>w'. state_machine_run t1 t2 w = Inr w' \<and>
           traffic_context w' =
             (if last_beep_time (traffic_context w) = 0 \<or>
                 BEEP_INTERVAL \<le> millis t1 - last_beep_time (traffic_context w)
              then (traffic_context w)\<lparr>last_beep_time := millis t1, beep_active := True\<rparr>
              else (traffic_context w)
                     \<lparr>beep_active := beep_active (traffic_context w) \<and>
                        millis t1 - last_beep_time (traffic_context w) < BEEP_DURATION\<rparr>) \<and>
           ledc_duty w' =
             (if last_beep_time (traffic_context w) = 0 \<or>
                 BEEP_INTERVAL \<le> millis t1 - last_beep_time (traffic_context w)
              then LEDC_DUTY
              else if beep_active (traffic_context w) \<and>
                      BEEP_DURATION \<le> millis t1 - last_beep_time (traffic_context w)
              then 0 else ledc_duty w)"
  using assms
  by (auto simp add: expired_def tl_defs Let_def not_le)

lemma green_quiet_poll:
  assumes "current_state (traffic_context w) = STATE_GREEN" and "\<not> expired t1 w"
      and "last_beep_time (traffic_context w) \<noteq> 0"
      and "millis t1 - last_beep_time (traffic_context w)
             < (if beep_active (traffic_context w) then BEEP_DURATION else BEEP_INTERVAL)"
  shows "state_machine_run t1 t2 w = Inr w"
proof -
  have lt: "millis t1 - last_beep_time (traffic_context w) < BEEP_INTERVAL"
    using assms(4) by (auto split: if_splits elim: less_trans)
  have off: "beep_active (traffic_context w) \<Longrightarrow>
             millis t1 - last_beep_time (traffic_context w) < BEEP_DURATION"
    using assms(4) by simp
  show ?thesis
    using assms(1-3) lt off
    by (auto simp add: expired_def state_machine_run_def handle_state_green_def Let_def not_le
          dest: leD)
qed

lemma green_quiet_polls:
  assumes "current_state (traffic_context w) = STATE_GREEN"
      and "last_beep_time (traffic_context w) \<noteq> 0"
      and "\<forall>(t1, t2) \<in> set ts. \<not> expired t1 w \<and>
             millis t1 - last_beep_time (traffic_context w)
               < (if beep_active (traffic_context w) then BEEP_DURATION else BEEP_INTERVAL)"
  shows "main_loop ts w = Inr w"
  using assms(3)
proof (induction ts)
  case Nil
  then show ?case by simp
next
  case (Cons x ts)
  obtain t1 t2 where x: "x = (t1, t2)" by (cases x)
  from Cons.prems have h: "\<not> expired t1 w"
    "millis t1 - last_beep_time (traffic_context w)
       < (if beep_active (traffic_context w) then BEEP_DURATION else BEEP_INTERVAL)"
    by (simp_all add: x)
  have "state_machine_run t1 t2 w = Inr w"
    using assms(1) h(1) assms(2) h(2) by (rule green_quiet_poll)
  moreover have "main_loop ts w = Inr w" using Cons by simp
  ultimately show ?case by (simp add: x)
qed

lemma green_exit:
  assumes "current_state (traffic_context w) = STATE_GREEN" and "expired t1 w"
  shows "\<exists>w'. state_machine_run t1 t2 w = Inr w' \<and>
           traffic_context w' =
             \<lparr>current_state = STATE_GREEN_TO_YELLOW, state_start_time = millis t2,
              last_beep_time = 0, beep_active = False\<rparr> \<and>
           ledc_duty w' = 0"
  using assms
  by (auto simp add: expired_def tl_defs Let_def)

lemma green_entry:
  assumes "current_state (traffic_context u) \<in> {0, 1, 2, 3}"
  shows "\<exists>u'. transition_to_state t STATE_GREEN u = Inr u' \<and>
           traffic_context u' =
             \<lparr>current_state = STATE_GREEN, state_start_time = millis t,
              last_beep_time = 0, beep_active = False\<rparr> \<and>
           ledc_duty u' = 0"
  using assms by (auto simp add: tl_defs Let_def)

lemma quiet_outside_green:
  assumes "current_state (traffic_context u) \<in> {0, 1, 3}"
      and "\<not> beep_active (traffic_context u)"
  shows "\<exists>u'. state_machine_run ta tb u = Inr u' \<and> \<not> beep_active (traffic_context u')"
  using assms by (auto simp add: tl_defs Let_def)

lemma poll_every_numeral:
  "poll_every t p (numeral n) = (t, t) # poll_every (t + p) p (pred_numeral n)"
  by (simp add: numeral_eq_Suc)

text \<open>
  Claim C3, as amended. Entering GREEN clears \<open>last_beep_time\<close> and the beep, and the first
  poll of the visit starts a beep. A beep that started at a clock value \<open>b\<close> other than 0
  keeps sounding through every poll with \<open>now - b < 200\<close> and is switched off by a poll with
  \<open>200 \<le> now - b < 1000\<close>; after that nothing changes through every poll with
  \<open>now - b < 1000\<close>, and a poll with \<open>now - b \<ge> 1000\<close> starts the next beep. A poll that comes
  at most \<open>p\<close> ms after an instant with \<open>now - b < d\<close> has \<open>now - b < d + p\<close>: with polls at
  most \<open>p\<close> ms apart a beep lasts at least 200 and less than \<open>200 + p\<close> ms, and the next one
  starts at least 1000 and less than \<open>1000 + p\<close> ms after it. The poll that leaves GREEN
  ends in GREEN_TO_YELLOW with \<open>beep_active = False\<close>, \<open>last_beep_time = 0\<close> and the buzzer
  duty 0, and no poll in another state turns the beep on.
\<close>

theorem green_beep_thresholds:
  assumes "current_state (traffic_context v) = STATE_GREEN"
  shows
   "(current_state (traffic_context u) \<in> {0, 1, 2, 3} \<longrightarrow>
       (\<exists>u'. transition_to_state tE STATE_GREEN u = Inr u' \<and>
          last_beep_time (traffic_context u') = 0 \<and> \<not> beep_active (traffic_context u') \<and>
          ledc_duty u' = 0)) \<and>
    (\<not> expired ta v \<and> last_beep_time (traffic_context v) = 0 \<longrightarrow>
       (\<exists>v'. state_machine_run ta tb v = Inr v' \<and>
          beep_active (traffic_context v') \<and>
          last_beep_time (traffic_context v') = millis ta \<and> ledc_duty v' = LEDC_DUTY)) \<and>
    (last_beep_time (traffic_context v) \<noteq> 0 \<and>
     (\<forall>(t1, t2) \<in> set ts. \<not> expired t1 v \<and>
        millis t1 - last_beep_time (traffic_context v)
          < (if beep_active (traffic_context v) then BEEP_DURATION else BEEP_INTERVAL)) \<longrightarrow>
       main_loop ts v = Inr v) \<and>
    (\<not> expired ta v \<and> last_beep_time (traffic_context v) \<noteq> 0 \<and>
     beep_active (traffic_context v) \<and>
     BEEP_DURATION \<le> millis ta - last_beep_time (traffic_context v) \<and>
     millis ta - last_beep_time (traffic_context v) < BEEP_INTERVAL \<longrightarrow>
       (\<exists>v'. state_machine_run ta tb v = Inr v' \<and>
          traffic_context v' = (traffic_context v)\<lparr>beep_active := False\<rparr> \<and>
          ledc_duty v' = 0)) \<and>
    (\<not> expired ta v \<and> last_beep_time (traffic_context v) \<noteq> 0 \<and>
     BEEP_INTERVAL \<le> millis ta - last_beep_time (traffic_context v) \<longrightarrow>
       (\<exists>v'. state_machine_run ta tb v = Inr v' \<and>
          beep_active (traffic_context v') \<and>
          last_beep_time (traffic_context v') = millis ta \<and> ledc_duty v' = LEDC_DUTY)) \<and>
    (unat (millis tp - last_beep_time (traffic_context v)) < d \<and>
     unat (millis ta - millis tp) \<le> p \<longrightarrow>
       unat (millis ta - last_beep_time (traffic_context v)) < d + p) \<and>
    (expired ta v \<longrightarrow>
       (\<exists>v'. state_machine_run ta tb v = Inr v' \<and>
          traffic_context v' =
            \<lparr>current_state = STATE_GREEN_TO_YELLOW, state_start_time = millis tb,
             last_beep_time = 0, beep_active = False\<rparr> \<and>
          ledc_duty v' = 0)) \<and>
    (current_state (traffic_context u) \<in> {0, 1, 3} \<and> \<not> beep_active (traffic_context u) \<longrightarrow>
       (\<exists>u'. state_machine_run ta tb u = Inr u' \<and> \<not> beep_active (traffic_context u')))"
proof -
  let ?b = "last_beep_time (traffic_context v)"
  have entry: "current_state (traffic_context u) \<in> {0, 1, 2, 3} \<longrightarrow>
       (\<exists>u'. transition_to_state tE STATE_GREEN u = Inr u' \<and>
          last_beep_time (traffic_context u') = 0 \<and> \<not> beep_active (traffic_context u') \<and>
          ledc_duty u' = 0)"
  proof
    assume "current_state (traffic_context u) \<in> {0, 1, 2, 3}"
    from green_entry [OF this, of tE] show
      "\<exists>u'. transition_to_state tE STATE_GREEN u = Inr u' \<and>
          last_beep_time (traffic_context u') = 0 \<and> \<not> beep_active (traffic_context u') \<and>
          ledc_duty u' = 0"
      by auto
  qed
  have first: "\<not> expired ta v \<and> ?b = 0 \<longrightarrow>
       (\<exists>v'. state_machine_run ta tb v = Inr v' \<and>
          beep_active (traffic_context v') \<and>
          last_beep_time (traffic_context v') = millis ta \<and> ledc_duty v' = LEDC_DUTY)"
  proof
    assume h: "\<not> expired ta v \<and> ?b = 0"
    then have ne: "\<not> expired ta v" by simp
    from green_poll [OF assms ne, of tb] h show
      "\<exists>v'. state_machine_run ta tb v = Inr v' \<and>
          beep_active (traffic_context v') \<and>
          last_beep_time (traffic_context v') = millis ta \<and> ledc_duty v' = LEDC_DUTY"
      by auto
  qed
  have quiet: "?b \<noteq> 0 \<and>
     (\<forall>(t1, t2) \<in> set ts. \<not> expired t1 v \<and>
        millis t1 - ?b < (if beep_active (traffic_context v) then BEEP_DURATION
                          else BEEP_INTERVAL)) \<longrightarrow>
       main_loop ts v = Inr v"
    using green_quiet_polls [OF assms, of ts] by blast
  have stop: "\<not> expired ta v \<and> ?b \<noteq> 0 \<and> beep_active (traffic_context v) \<and>
     BEEP_DURATION \<le> millis ta - ?b \<and> millis ta - ?b < BEEP_INTERVAL \<longrightarrow>
       (\<exists>v'. state_machine_run ta tb v = Inr v' \<and>
          traffic_context v' = (traffic_context v)\<lparr>beep_active := False\<rparr> \<and>
          ledc_duty v' = 0)"
  proof
    assume h: "\<not> expired ta v \<and> ?b \<noteq> 0 \<and> beep_active (traffic_context v) \<and>
     BEEP_DURATION \<le> millis ta - ?b \<and> millis ta - ?b < BEEP_INTERVAL"
    then have ne: "\<not> expired ta v" by simp
    from green_poll [OF assms ne, of tb] h show
      "\<exists>v'. state_machine_run ta tb v = Inr v' \<and>
          traffic_context v' = (traffic_context v)\<lparr>beep_active := False\<rparr> \<and>
          ledc_duty v' = 0"
      by (auto simp add: not_le dest: leD)
  qed
  have again: "\<not> expired ta v \<and> ?b \<noteq> 0 \<and> BEEP_INTERVAL \<le> millis ta - ?b \<longrightarrow>
       (\<exists>v'. state_machine_run ta tb v = Inr v' \<and>
          beep_active (traffic_context v') \<and>
          last_beep_time (traffic_context v') = millis ta \<and> ledc_duty v' = LEDC_DUTY)"
  proof
    assume h: "\<not> expired ta v \<and> ?b \<noteq> 0 \<and> BEEP_INTERVAL \<le> millis ta - ?b"
    then have ne: "\<not> expired ta v" by simp
    from green_poll [OF assms ne, of tb] h show
      "\<exists>v'. state_machine_run ta tb v = Inr v' \<and>
          beep_active (traffic_context v') \<and>
          last_beep_time (traffic_context v') = millis ta \<and> ledc_duty v' = LEDC_DUTY"
      by auto
  qed
  have bound: "unat (millis tp - ?b) < d \<and> unat (millis ta - millis tp) \<le> p \<longrightarrow>
       unat (millis ta - ?b) < d + p"
    using unat_sub_split [of "millis ta" "?b" "millis tp"] by linarith
  have exit: "expired ta v \<longrightarrow>
       (\<exists>v'. state_machine_run ta tb v = Inr v' \<and>
          traffic_context v' =
            \<lparr>current_state = STATE_GREEN_TO_YELLOW, state_start_time = millis tb,
             last_beep_time = 0, beep_active = False\<rparr> \<and>
          ledc_duty v' = 0)"
    using green_exit [OF assms, of ta tb] by blast
  have outside: "current_state (traffic_context u) \<in> {0, 1, 3} \<and>
      \<not> beep_active (traffic_context u) \<longrightarrow>
       (\<exists>u'. state_machine_run ta tb u = Inr u' \<and> \<not> beep_active (traffic_context u'))"
    using quiet_outside_green [of u ta tb] by blast
  from entry first quiet stop again bound exit outside show ?thesis by blast
qed

lemmas green_eval = green_system_def boot_system_def initial_context_def tl_defs expired_def
  millis_def state_durations_def state_names_def beeping_def last_beep_def Let_def
  poll_every_numeral

theorem green_beep_thresholds_witness:
  "current_state (traffic_context (green_system 7000 0 False)) = STATE_GREEN \<and>
   (\<exists>u'. transition_to_state 7000000 STATE_GREEN boot_system = Inr u' \<and>
      traffic_context u' = traffic_context (green_system 7000 0 False)) \<and>
   (\<exists>w. main_loop [(7010000, 0), (7110000, 0), (7210000, 0), (7510000, 0), (8010000, 0)]
           (green_system 7000 0 False) = Inr w \<and>
      traffic_context w = traffic_context (green_system 7000 8010 True)) \<and>
   \<not> expired 7010000 (green_system 7000 0 False) \<and>
   (\<exists>v'. state_machine_run 7010000 0 (green_system 7000 0 False) = Inr v' \<and>
      traffic_context v' = traffic_context (green_system 7000 7010 True) \<and>
      ledc_duty v' = LEDC_DUTY) \<and>
   millis 7110000 - 7010 < BEEP_DURATION \<and>
   main_loop [(7110000, 0)] (green_system 7000 7010 True) = Inr (green_system 7000 7010 True) \<and>
   BEEP_DURATION \<le> millis 7210000 - 7010 \<and>
   (\<exists>v'. state_machine_run 7210000 0 (green_system 7000 7010 True) = Inr v' \<and>
      traffic_context v' = traffic_context (green_system 7000 7010 False) \<and>
      ledc_duty v' = 0) \<and>
   unat (millis 7210000 - 7010) < 200 + 100 \<and>
   millis 7510000 - 7010 < BEEP_INTERVAL \<and>
   main_loop [(7510000, 0)] (green_system 7000 7010 False) = Inr (green_system 7000 7010 False) \<and>
   BEEP_INTERVAL \<le> millis 8010000 - 7010 \<and>
   (\<exists>v'. state_machine_run 8010000 0 (green_system 7000 7010 False) = Inr v' \<and>
      traffic_context v' = traffic_context (green_system 7000 8010 True) \<and>
      ledc_duty v' = LEDC_DUTY) \<and>
   expired 12000000 (green_system 7000 8010 True) \<and>
   (\<exists>v'. state_machine_run 12000000 12000000 (green_system 7000 8010 True) = Inr v' \<and>
      traffic_context v' =
        \<lparr>current_state = STATE_GREEN_TO_YELLOW, state_start_time = 12000,
         last_beep_time = 0, beep_active = False\<rparr> \<and>
      ledc_duty v' = 0)"
  using green_beep_thresholds
          [where v = "green_system 7000 0 False" and u = boot_system and tE = 7000000
             and ta = 7010000 and tb = 0 and ts = "[]" and tp = 0 and d = 0 and p = 0]
        green_beep_thresholds
          [where v = "green_system 7000 7010 True" and u = boot_system and tE = 7000000
             and ta = 7210000 and tb = 0 and ts = "[(7110000, 0)]" and tp = 7110000
             and d = 200 and p = 100]
        green_beep_thresholds
          [where v = "green_system 7000 7010 False" and u = boot_system and tE = 7000000
             and ta = 8010000 and tb = 0 and ts = "[(7510000, 0)]" and tp = 7510000
             and d = 1000 and p = 500]
        green_beep_thresholds
          [where v = "green_system 7000 8010 True" and u = boot_system and tE = 7000000
             and ta = 12000000 and tb = 12000000 and ts = "[]" and tp = 0 and d = 0 and p = 0]
  by (simp add: green_eval)

text \<open>
  A run that the claim as stated excludes. The program starts at timer 0 and is polled at
  5000 ms and at 7000 ms, which takes it through RED and RED_TO_YELLOW into GREEN at clock
  value 7000; from 7010 it is polled every 30 ms. The first beep starts at 7010; it still
  sounds after the poll at 7190 and is stopped by the next poll, at 7220, after 210 ms. The
  second beep starts at 8030, 1020 ms after the first. At 9020 a beep of a 1000 ms cadence
  that started at 7010 would sound (its third beep started at 9010); the buzzer is silent
  until the poll at 9050.
\<close>

theorem green_beep_not_exact:
  "last_beep (app_main 0 ([(5000000, 5000000), (7000000, 7000000)] @
                           poll_every 7010000 30000 1) boot_system) = Some 7010 \<and>
   beeping (app_main 0 ([(5000000, 5000000), (7000000, 7000000)] @
                         poll_every 7010000 30000 7) boot_system) \<and>
   \<not> beeping (app_main 0 ([(5000000, 5000000), (7000000, 7000000)] @
                           poll_every 7010000 30000 8) boot_system) \<and>
   last_beep (app_main 0 ([(5000000, 5000000), (7000000, 7000000)] @
                           poll_every 7010000 30000 35) boot_system) = Some 8030 \<and>
   \<not> beeping (app_main 0 ([(5000000, 5000000), (7000000, 7000000)] @
                           poll_every 7010000 30000 68) boot_system) \<and>
   claimed_beep_on 7010 9020"
proof -
  have a: "last_beep (app_main 0 ([(5000000, 5000000), (7000000, 7000000)] @
                           poll_every 7010000 30000 1) boot_system) = Some 7010"
    by (simp add: init_defs green_eval)
  have b: "beeping (app_main 0 ([(5000000, 5000000), (7000000, 7000000)] @
                         poll_every 7010000 30000 7) boot_system)"
    by (simp add: init_defs green_eval)
  have c: "\<not> beeping (app_main 0 ([(5000000, 5000000), (7000000, 7000000)] @
                           poll_every 7010000 30000 8) boot_system)"
    by (simp add: init_defs green_eval)
  have e: "last_beep (app_main 0 ([(5000000, 5000000), (7000000, 7000000)] @
                           poll_every 7010000 30000 35) boot_system) = Some 8030"
    by (simp add: init_defs green_eval)
  have f: "\<not> beeping (app_main 0 ([(5000000, 5000000), (7000000, 7000000)] @
                           poll_every 7010000 30000 68) boot_system)"
    by (simp add: init_defs green_eval)
  have g: "claimed_beep_on 7010 9020"
    by (simp add: claimed_beep_on_def)
  from a b c e f g show ?thesis by blast
qed

text \<open>
  The value 0 of \<open>last_beep_time\<close> means "no beep yet in this visit". The statements above
  speak of beeps that start at another clock value. When GREEN is entered at clock value
  \<open>2 ^ 32 - 10\<close> and polled every 10 ms, the first beep starts at clock value 0 and leaves
  \<open>last_beep_time\<close> at 0, so the poll at 10 starts it again: it still sounds after the poll
  at 200 and stops at 210.
\<close>

lemma green_beep_started_at_clock_zero:
  "last_beep (main_loop (poll_every 4294967296000 10000 1) (green_system 4294967286 0 False))
     = Some 0 \<and>
   beeping (main_loop (poll_every 4294967296000 10000 1) (green_system 4294967286 0 False)) \<and>
   last_beep (main_loop (poll_every 4294967296000 10000 2) (green_system 4294967286 0 False))
     = Some 10 \<and>
   beeping (main_loop (poll_every 4294967296000 10000 21) (green_system 4294967286 0 False)) \<and>
   \<not> beeping (main_loop (poll_every 4294967296000 10000 22) (green_system 4294967286 0 False))"
proof -
  have a: "last_beep (main_loop (poll_every 4294967296000 10000 1)
             (green_system 4294967286 0 False)) = Some 0"
    by (simp add: green_eval)
  have b: "beeping (main_loop (poll_every 4294967296000 10000 1)
             (green_system 4294967286 0 False))"
    by (simp add: green_eval)
  have c: "last_beep (main_loop (poll_every 4294967296000 10000 2)
             (green_system 4294967286 0 False)) = Some 10"
    by (simp add: green_eval)
  have d: "beeping (main_loop (poll_every 4294967296000 10000 21)
             (green_system 4294967286 0 False))"
    by (simp add: green_eval)
  have e: "\<not> beeping (main_loop (poll_every 4294967296000 10000 22)
             (green_system 4294967286 0 False))"
    by (simp add: green_eval)
  from a b c d e show ?thesis by blast
qed

subsection \<open>Police siren\<close>

lemmas freq_defs = FREQ_MIN_def FREQ_MAX_def FREQ_STEP_def

lemma siren_inv_start: "siren_inv (siren_setup (siren_globals w))"
  by (simp add: siren_inv_def siren_setup_def buzzer_start_def siren_globals_def freq_defs
        Let_def)

lemma siren_iteration_freq:
  "buzzer_freq (siren_iteration t w) =
     (if buzzer_due t w
      then (if freq_up w then buzzer_freq w + FREQ_STEP else buzzer_freq w - FREQ_STEP)
      else buzzer_freq w)"
  by (simp add: siren_iteration_def buzzer_due_def Let_def)

lemma siren_iteration_up:
  "freq_up (siren_iteration t w) =
     (if buzzer_due t w
      then (if freq_up w then buzzer_freq w + FREQ_STEP < FREQ_MAX
            else buzzer_freq w - FREQ_STEP \<le> FREQ_MIN)
      else freq_up w)"
  by (auto simp add: siren_iteration_def buzzer_due_def Let_def not_le not_less)

lemma siren_iteration_timer:
  "siren_timer_freq (siren_iteration t w) =
     (if buzzer_due t w then buzzer_freq (siren_iteration t w) else siren_timer_freq w)"
  by (simp add: siren_iteration_def buzzer_due_def Let_def)

lemma siren_inv_step: "siren_inv w \<Longrightarrow> siren_inv (siren_iteration t w)"
  unfolding siren_inv_def siren_iteration_freq siren_iteration_up freq_defs
  by (auto split: if_splits)

lemma siren_inv_loop: "siren_inv w \<Longrightarrow> siren_inv (siren_loop ts w)"
  by (induction ts arbitrary: w) (simp_all add: siren_inv_step)

lemma siren_inv_main: "siren_inv (siren_main ts w)"
  unfolding siren_main_def by (rule siren_inv_loop) (rule siren_inv_start)

text \<open>
  Claim C8. The siren starts at 600 Hz going up. After start-up and any number of loop
  iterations, at any timer readings, the frequency is between 600 and 1200 and a multiple
  of 5. An iteration whose update is due adds 5 when the direction is up and subtracts 5
  when it is down, and leaves the frequency in the range; the direction turns down when
  1200 is reached and up when 600 is reached.
\<close>

theorem siren_frequency_in_range:
  "FREQ_MIN = 600 \<and> FREQ_MAX = 1200 \<and> FREQ_STEP = 5 \<and>
   buzzer_freq (siren_main [] w) = 600 \<and> freq_up (siren_main [] w) \<and>
   600 \<le> buzzer_freq (siren_main ts w) \<and> buzzer_freq (siren_main ts w) \<le> 1200 \<and>
   buzzer_freq (siren_main ts w) mod 5 = 0 \<and>
   buzzer_freq (siren_iteration t (siren_main ts w)) =
     (if buzzer_due t (siren_main ts w)
      then (if freq_up (siren_main ts w) then buzzer_freq (siren_main ts w) + 5
            else buzzer_freq (siren_main ts w) - 5)
      else buzzer_freq (siren_main ts w)) \<and>
   freq_up (siren_iteration t (siren_main ts w)) =
     (if buzzer_due t (siren_main ts w)
      then (if freq_up (siren_main ts w) then buzzer_freq (siren_main ts w) + 5 < 1200
            else buzzer_freq (siren_main ts w) - 5 \<le> 600)
      else freq_up (siren_main ts w)) \<and>
   600 \<le> buzzer_freq (siren_iteration t (siren_main ts w)) \<and>
   buzzer_freq (siren_iteration t (siren_main ts w)) \<le> 1200"
proof -
  have start: "buzzer_freq (siren_main [] w) = 600 \<and> freq_up (siren_main [] w)"
    by (simp add: siren_main_def siren_setup_def buzzer_start_def siren_globals_def freq_defs
          Let_def)
  have inv: "siren_inv (siren_main ts w)" by (rule siren_inv_main)
  then have inv': "siren_inv (siren_iteration t (siren_main ts w))" by (rule siren_inv_step)
  have r: "600 \<le> buzzer_freq (siren_main ts w) \<and> buzzer_freq (siren_main ts w) \<le> 1200 \<and>
           buzzer_freq (siren_main ts w) mod 5 = 0"
    using inv by (simp add: siren_inv_def freq_defs mod_eq_0_iff_dvd)
  have r': "600 \<le> buzzer_freq (siren_iteration t (siren_main ts w)) \<and>
            buzzer_freq (siren_iteration t (siren_main ts w)) \<le> 1200"
    using inv' by (simp add: siren_inv_def freq_defs)
  have s: "buzzer_freq (siren_iteration t (siren_main ts w)) =
     (if buzzer_due t (siren_main ts w)
      then (if freq_up (siren_main ts w) then buzzer_freq (siren_main ts w) + 5
            else buzzer_freq (siren_main ts w) - 5)
      else buzzer_freq (siren_main ts w))"
    by (simp only: siren_iteration_freq freq_defs)
  have u: "freq_up (siren_iteration t (siren_main ts w)) =
     (if buzzer_due t (siren_main ts w)
      then (if freq_up (siren_main ts w) then buzzer_freq (siren_main ts w) + 5 < 1200
            else buzzer_freq (siren_main ts w) - 5 \<le> 600)
      else freq_up (siren_main ts w))"
    by (simp only: siren_iteration_up freq_defs)
  show ?thesis
    using start r r' s u by (simp only: freq_defs simp_thms)
qed

theorem siren_frequency_in_range_witness:
  "buzzer_due 15000 (siren_main [5000, 10000] siren_boot) \<and>
   freq_up (siren_main [5000, 10000] siren_boot) \<and>
   buzzer_freq (siren_main [5000, 10000] siren_boot) = 610 \<and>
   buzzer_freq (siren_iteration 15000 (siren_main [5000, 10000] siren_boot)) = 615"
proof -
  have n: "(word_of_int (sint (5000 :: int64_t) sdiv 1000) :: 64 word) = 5"
          "(word_of_int (sint (10000 :: int64_t) sdiv 1000) :: 64 word) = 10"
          "(word_of_int (sint (15000 :: int64_t) sdiv 1000) :: 64 word) = 15"
    by (simp_all add: signed_divide_int_def)
  have f: "buzzer_freq (siren_main [5000, 10000] siren_boot) = 610"
    and u: "freq_up (siren_main [5000, 10000] siren_boot)"
    and l: "last_buzzer_time (siren_main [5000, 10000] siren_boot) = 10"
    by (simp_all add: siren_main_def siren_setup_def buzzer_start_def siren_globals_def
          siren_boot_def siren_iteration_def n freq_defs Let_def)
  have d: "buzzer_due 15000 (siren_main [5000, 10000] siren_boot)"
    by (simp add: buzzer_due_def n l)
  show ?thesis
    using siren_frequency_in_range [of siren_boot "[5000, 10000]" 15000] f u d by simp
qed

subsection \<open>Melody player\<close>

lemma melody_length: "MELODY_LENGTH = 86"
  by (simp add: MELODY_LENGTH_def imperial_march_raw_def)

lemma whole_note: "WHOLE_NOTE = 2000"
  by (simp add: WHOLE_NOTE_def TEMPO_def)

lemma calc_duration_defined:
  "divider \<noteq> 0 \<Longrightarrow> - (2 ^ 31) < divider \<Longrightarrow> \<exists>d. calc_duration divider = Inr d"
  by (simp add: calc_duration_def)

lemma dividers_all:
  "list_all (\<lambda>row. snd row \<noteq> 0 \<and> - (2 ^ 31) < snd row) imperial_march_raw"
  by (simp add: imperial_march_raw_def)

lemma dividers_nth:
  assumes "i < MELODY_LENGTH"
  shows "snd (imperial_march_raw ! i) \<noteq> 0" and "- (2 ^ 31) < snd (imperial_march_raw ! i)"
  using dividers_all assms unfolding list_all_length MELODY_LENGTH_def by blast+

lemma play_melody_from_defined:
  "i \<le> MELODY_LENGTH \<Longrightarrow>
   \<exists>ds. play_melody_from i played = Inr (played @ ds) \<and> length ds = MELODY_LENGTH - i \<and>
        (\<forall>k<length ds. fst (ds ! k) = fst (imperial_march_raw ! (i + k)) \<and>
           calc_duration (snd (imperial_march_raw ! (i + k))) = Inr (snd (ds ! k)))"
proof (induction "MELODY_LENGTH - i" arbitrary: i played)
  case 0
  then have "\<not> i < MELODY_LENGTH" by simp
  then have "play_melody_from i played = Inr played"
    by (subst play_melody_from.simps) simp
  with 0 show ?case by simp
next
  case (Suc n)
  then have lt: "i < MELODY_LENGTH" by simp
  obtain d where d: "calc_duration (snd (imperial_march_raw ! i)) = Inr d"
    using calc_duration_defined [OF dividers_nth [OF lt]] by blast
  let ?row = "(fst (imperial_march_raw ! i), d)"
  have unfold: "play_melody_from i played = play_melody_from (i + 1) (played @ [?row])"
    by (subst play_melody_from.simps) (simp add: lt d Let_def)
  have "n = MELODY_LENGTH - (i + 1)" using Suc.hyps(2) by simp
  moreover have "i + 1 \<le> MELODY_LENGTH" using lt by simp
  ultimately obtain ds where ds:
    "play_melody_from (i + 1) (played @ [?row]) = Inr ((played @ [?row]) @ ds)"
    "length ds = MELODY_LENGTH - (i + 1)"
    "\<forall>k<length ds. fst (ds ! k) = fst (imperial_march_raw ! (i + 1 + k)) \<and>
           calc_duration (snd (imperial_march_raw ! (i + 1 + k))) = Inr (snd (ds ! k))"
    using Suc.hyps(1) [of "i + 1" "played @ [?row]"] by blast
  have "play_melody_from i played = Inr (played @ (?row # ds))"
    unfolding unfold ds(1) by simp
  moreover have "length (?row # ds) = MELODY_LENGTH - i" using ds(2) lt by simp
  moreover have "\<forall>k<length (?row # ds). fst ((?row # ds) ! k) = fst (imperial_march_raw ! (i + k)) \<and>
           calc_duration (snd (imperial_march_raw ! (i + k))) = Inr (snd ((?row # ds) ! k))"
  proof (intro allI impI)
    fix k assume k: "k < length (?row # ds)"
    show "fst ((?row # ds) ! k) = fst (imperial_march_raw ! (i + k)) \<and>
           calc_duration (snd (imperial_march_raw ! (i + k))) = Inr (snd ((?row # ds) ! k))"
    proof (cases k)
      case 0
      then show ?thesis by (simp add: d)
    next
      case (Suc j)
      then have "j < length ds" using k by simp
      then show ?thesis using ds(3) Suc by simp
    qed
  qed
  ultimately show ?case by blast
qed

text \<open>
  Claim C9. \<open>calc_duration\<close> is undefined at 0 (a division by zero); for a positive divider
  it is \<open>WHOLE_NOTE\<close> divided by it, for a negative one (above the least \<open>int\<close>) the dotted
  value of \<open>WHOLE_NOTE\<close> divided by its absolute value. Every divider of
  \<open>imperial_march_raw\<close> is nonzero and has a defined duration, and \<open>play_melody\<close> runs
  through all \<open>MELODY_LENGTH\<close> rows without an error, playing each row's frequency for
  that duration.
\<close>

theorem melody_durations_defined:
  "calc_duration 0 = Inl Division_By_Zero \<and>
   (0 < divider \<longrightarrow> calc_duration divider = Inr (WHOLE_NOTE div divider)) \<and>
   (divider < 0 \<and> - (2 ^ 31) < divider \<longrightarrow>
      calc_duration divider = Inr (((WHOLE_NOTE div \<bar>divider\<bar>) * 3) div 2)) \<and>
   (\<forall>i<MELODY_LENGTH. snd (imperial_march_raw ! i) \<noteq> 0 \<and>
      (\<exists>d. calc_duration (snd (imperial_march_raw ! i)) = Inr d)) \<and>
   (\<exists>played. play_melody = Inr played \<and> length played = MELODY_LENGTH \<and>
      (\<forall>i<MELODY_LENGTH. fst (played ! i) = fst (imperial_march_raw ! i) \<and>
         calc_duration (snd (imperial_march_raw ! i)) = Inr (snd (played ! i))))"
proof -
  have a: "calc_duration 0 = Inl Division_By_Zero" by (simp add: calc_duration_def)
  have b: "0 < divider \<longrightarrow> calc_duration divider = Inr (WHOLE_NOTE div divider)"
    by (simp add: calc_duration_def)
  have c: "divider < 0 \<and> - (2 ^ 31) < divider \<longrightarrow>
      calc_duration divider = Inr (((WHOLE_NOTE div \<bar>divider\<bar>) * 3) div 2)"
    by (simp add: calc_duration_def)
  have d: "\<forall>i<MELODY_LENGTH. snd (imperial_march_raw ! i) \<noteq> 0 \<and>
      (\<exists>d. calc_duration (snd (imperial_march_raw ! i)) = Inr d)"
    using dividers_nth calc_duration_defined by blast
  have e: "\<exists>played. play_melody = Inr played \<and> length played = MELODY_LENGTH \<and>
      (\<forall>i<MELODY_LENGTH. fst (played ! i) = fst (imperial_march_raw ! i) \<and>
         calc_duration (snd (imperial_march_raw ! i)) = Inr (snd (played ! i)))"
    using play_melody_from_defined [of 0 "[]"] unfolding play_melody_def by auto
  from a b c d e show ?thesis by blast
qed

theorem melody_durations_defined_witness:
  "(0::nat) < MELODY_LENGTH \<and> snd (imperial_march_raw ! 0) = - 4 \<and>
   calc_duration (- 4) = Inr 750 \<and> calc_duration 16 = Inr 125 \<and>
   (\<exists>played. play_melody = Inr played \<and> length played = 86)"
proof -
  note t1 = melody_durations_defined [of 16] and t2 = melody_durations_defined [of "- 4"]
  have l: "(0::nat) < MELODY_LENGTH" by (simp add: melody_length)
  have r: "snd (imperial_march_raw ! 0) = - 4" by (simp add: imperial_march_raw_def)
  from t1 have "(0::int) < 16 \<longrightarrow> calc_duration 16 = Inr (WHOLE_NOTE div 16)" by blast
  then have a: "calc_duration 16 = Inr 125" by (simp add: whole_note)
  from t2 have "(- 4 :: int) < 0 \<and> - (2 ^ 31) < (- 4 :: int) \<longrightarrow>
      calc_duration (- 4) = Inr (((WHOLE_NOTE div \<bar>- 4\<bar>) * 3) div 2)" by blast
  then have b: "calc_duration (- 4) = Inr 750" by (simp add: whole_note)
  from t1 have "\<exists>played. play_melody = Inr played \<and> length played = MELODY_LENGTH" by blast
  then have c: "\<exists>played. play_melody = Inr played \<and> length played = 86"
    by (simp only: melody_length)
  from l r a b c show ?thesis by blast
qed

subsection \<open>SOS Morse beacon\<close>

lemmas morse_consts = TIME_UNIT_def DOT_DURATION_def DASH_DURATION_def SYMBOL_SPACE_def
  LETTER_SPACE_def WORD_SPACE_def DOT_def DASH_def SPACE_SYMBOL_def SPACE_LETTER_def
  SPACE_WORD_def

lemma buffer_holds_c_string:
  assumes "buffer_holds b s"
  shows "c_string (morse_buffer b) = s"
proof -
  let ?buf = "morse_buffer b"
  from assms have len: "length s < length ?buf" and tk: "take (length s) ?buf = s"
    and nul: "?buf ! length s = NUL" and no: "NUL \<notin> set s"
    by (simp_all add: buffer_holds_def)
  have "?buf = take (length s) ?buf @ ?buf ! length s # drop (Suc (length s)) ?buf"
    using len by (simp add: id_take_nth_drop [symmetric])
  then have "?buf = s @ NUL # drop (Suc (length s)) ?buf"
    by (simp only: tk nul)
  then have "c_string ?buf = takeWhile (\<lambda>c. c \<noteq> NUL) (s @ NUL # drop (Suc (length s)) ?buf)"
    unfolding c_string_def by simp
  also have "\<dots> = s" using no by (auto simp add: takeWhile_tail)
  finally show ?thesis .
qed


lemma buffer_holds_clear:
  "length (morse_buffer b) = 128 \<Longrightarrow> buffer_holds (morse_buffer_clear b) []"
  by (simp add: buffer_holds_def morse_buffer_clear_def)

lemma buffer_holds_add:
  assumes h: "buffer_holds b s" and str: "NUL \<notin> set str"
      and room: "length s + length str < 127"
  shows "buffer_holds (morse_buffer_add str b) (s @ str)"
proof -
  let ?buf = "morse_buffer b"
  from h have len: "length ?buf = 128" and pos: "morse_pos b = int (length s)"
    and tk: "take (length s) ?buf = s" and no: "NUL \<notin> set s"
    by (simp_all add: buffer_holds_def)
  have guard: "0 \<le> morse_pos b + int (length str) \<and> morse_pos b + int (length str) < 128 - 1"
    using room by (simp add: pos)
  let ?new = "s @ str @ [NUL] @ drop (length s + length str + 1) ?buf"
  have new: "morse_buffer_add str b =
               b\<lparr>morse_buffer := ?new, morse_pos := int (length s) + int (length str)\<rparr>"
    using guard by (simp add: morse_buffer_add_def Let_def pos strcpy_at_def tk)
  have l: "length ?new = 128" using room by (simp add: len)
  have t: "take (length (s @ str)) ?new = s @ str" by simp
  have n: "?new ! length (s @ str) = NUL"
    by (simp add: nth_append)
  show ?thesis
    unfolding buffer_holds_def new using l t n no str room by simp
qed

lemma buffer_holds_signal:
  "buffer_holds (signal_on d b) s = buffer_holds b s"
  "buffer_holds (signal_off d b) s = buffer_holds b s"
  by (simp_all add: buffer_holds_def signal_on_def signal_off_def Let_def)

lemma buffer_holds_symbol:
  assumes "buffer_holds b s" and "length s + 1 < 127"
  shows "buffer_holds (transmit_symbol symbol b) (s @ morse_text symbol)"
  using assms
  by (simp add: transmit_symbol_def morse_text_def morse_consts buffer_holds_signal
        buffer_holds_add)

lemma morse_text_length: "length (morse_text symbol) \<le> 1"
  by (simp add: morse_text_def)

lemma buffer_holds_all:
  "buffer_holds b s \<Longrightarrow> length s + length symbols < 127 \<Longrightarrow>
   buffer_holds (transmit_all symbols b) (s @ concat (map morse_text symbols))"
proof (induction symbols arbitrary: b s)
  case Nil
  then show ?case by simp
next
  case (Cons x xs)
  have "buffer_holds (transmit_symbol x b) (s @ morse_text x)"
    using Cons.prems by (intro buffer_holds_symbol) simp_all
  moreover have "length (s @ morse_text x) + length xs < 127"
    using Cons.prems(2) morse_text_length [of x] by simp
  ultimately have "buffer_holds (transmit_all xs (transmit_symbol x b))
                     ((s @ morse_text x) @ concat (map morse_text xs))"
    by (rule Cons.IH)
  then show ?case by simp
qed

lemma sos_text: "concat (map morse_text sos_pattern) = ''... --- ...''"
  by (simp add: sos_pattern_def morse_text_def morse_consts)

lemma sos_buffer:
  assumes "length (morse_buffer b) = 128"
  shows "c_string (morse_buffer (transmit_all sos_pattern (morse_buffer_clear b))) = ''... --- ...''"
proof -
  have "buffer_holds (morse_buffer_clear b) []" using assms by (rule buffer_holds_clear)
  moreover have "length ([] :: string) + length sos_pattern < 127"
    by (simp add: sos_pattern_def)
  ultimately have "buffer_holds (transmit_all sos_pattern (morse_buffer_clear b))
                     ([] @ concat (map morse_text sos_pattern))"
    by (rule buffer_holds_all)
  then show ?thesis
    using buffer_holds_c_string sos_text by fastforce
qed

lemma transmit_symbol_gap: "transmit_symbol SYMBOL_SPACE b = b"
  by (simp add: transmit_symbol_def morse_consts)

lemma sos_signal:
  "signal (transmit_all sos_pattern (morse_buffer_clear b)) =
     signal b @ [(1, LEDC_DUTY, 200), (1, LEDC_DUTY, 200), (1, LEDC_DUTY, 200), (0, 0, 600),
                 (1, LEDC_DUTY, 600), (1, LEDC_DUTY, 600), (1, LEDC_DUTY, 600), (0, 0, 600),
                 (1, LEDC_DUTY, 200), (1, LEDC_DUTY, 200), (1, LEDC_DUTY, 200), (0, 0, 1400)]"
  by (simp add: sos_pattern_def transmit_symbol_def morse_consts signal_on_def signal_off_def
        morse_buffer_add_def morse_buffer_clear_def Let_def)

text \<open>
  Claim C10. The gaps inside a letter of \<open>sos_pattern\<close> are the number 200 (the macro
  \<open>SYMBOL_SPACE\<close>), not the enum value \<open>SPACE_SYMBOL = 2\<close>. \<open>transmit_symbol\<close> leaves the
  beacon unchanged for such an element: no level change, no delay, no text. One
  \<open>transmit_sos\<close> therefore keeps the signal on through the three dots (3 delays of 200 ms)
  and the three dashes (3 delays of 600 ms) of a letter, with off-times only between letters
  (600 ms) and after the word (1400 ms), while the buffer it logs reads \<open>... --- ...\<close>.
\<close>

theorem sos_symbol_gaps_skipped:
  assumes "length (morse_buffer b) = 128"
  shows "SYMBOL_SPACE = 200 \<and> SPACE_SYMBOL = 2 \<and>
         sos_pattern = [DOT, 200, DOT, 200, DOT, SPACE_LETTER, DASH, 200, DASH, 200, DASH,
                        SPACE_LETTER, DOT, 200, DOT, 200, DOT, SPACE_WORD] \<and>
         (\<forall>x \<in> set sos_pattern. x = 200 \<longrightarrow> transmit_symbol x c = c) \<and>
         signal (transmit_sos b) =
           signal b @ [(1, LEDC_DUTY, 200), (1, LEDC_DUTY, 200), (1, LEDC_DUTY, 200),
                       (0, 0, 600),
                       (1, LEDC_DUTY, 600), (1, LEDC_DUTY, 600), (1, LEDC_DUTY, 600),
                       (0, 0, 600),
                       (1, LEDC_DUTY, 200), (1, LEDC_DUTY, 200), (1, LEDC_DUTY, 200),
                       (0, 0, 1400)] \<and>
         c_string (morse_buffer (transmit_sos b)) = ''... --- ...'' \<and>
         beacon_log (transmit_sos b) = beacon_log b @ [''Transmitted SOS: ... --- ...'']"
proof -
  have a: "SYMBOL_SPACE = 200 \<and> SPACE_SYMBOL = 2" by (simp add: morse_consts)
  have p: "sos_pattern = [DOT, 200, DOT, 200, DOT, SPACE_LETTER, DASH, 200, DASH, 200, DASH,
                        SPACE_LETTER, DOT, 200, DOT, 200, DOT, SPACE_WORD]"
    by (simp add: sos_pattern_def SYMBOL_SPACE_def TIME_UNIT_def)
  have g: "\<forall>x \<in> set sos_pattern. x = 200 \<longrightarrow> transmit_symbol x c = c"
    using transmit_symbol_gap [of c] a by simp
  have s: "signal (transmit_sos b) =
           signal b @ [(1, LEDC_DUTY, 200), (1, LEDC_DUTY, 200), (1, LEDC_DUTY, 200),
                       (0, 0, 600),
                       (1, LEDC_DUTY, 600), (1, LEDC_DUTY, 600), (1, LEDC_DUTY, 600),
                       (0, 0, 600),
                       (1, LEDC_DUTY, 200), (1, LEDC_DUTY, 200), (1, LEDC_DUTY, 200),
                       (0, 0, 1400)]"
    by (simp add: transmit_sos_def Let_def sos_signal)
  have t: "c_string (morse_buffer (transmit_sos b)) = ''... --- ...''"
    by (simp add: transmit_sos_def Let_def sos_buffer [OF assms])
  have lg: "beacon_log (transmit_all symbols c) = beacon_log c" for symbols c
    by (induction symbols arbitrary: c)
       (simp_all add: transmit_symbol_def signal_on_def signal_off_def morse_buffer_add_def Let_def)
  have lc: "beacon_log (morse_buffer_clear b) = beacon_log b"
    by (simp add: morse_buffer_clear_def)
  have l: "beacon_log (transmit_sos b) = beacon_log b @ [''Transmitted SOS: ... --- ...'']"
    by (simp add: transmit_sos_def Let_def sos_buffer [OF assms] lg lc)
  from a p g s t l show ?thesis by blast
qed

theorem sos_symbol_gaps_skipped_witness:
  "length (morse_buffer beacon_start) = 128 \<and>
   200 \<in> set sos_pattern \<and> transmit_symbol 200 beacon_start = beacon_start \<and>
   signal (transmit_sos beacon_start) =
     [(1, LEDC_DUTY, 200), (1, LEDC_DUTY, 200), (1, LEDC_DUTY, 200), (0, 0, 600),
      (1, LEDC_DUTY, 600), (1, LEDC_DUTY, 600), (1, LEDC_DUTY, 600), (0, 0, 600),
      (1, LEDC_DUTY, 200), (1, LEDC_DUTY, 200), (1, LEDC_DUTY, 200), (0, 0, 1400)] \<and>
   c_string (morse_buffer (transmit_sos beacon_start)) = ''... --- ...''"
proof -
  have h: "length (morse_buffer beacon_start) = 128" by (simp add: beacon_start_def)
  have e: "signal beacon_start = []" by (simp add: beacon_start_def)
  have m: "200 \<in> set sos_pattern" by (simp add: sos_pattern_def morse_consts)
  note t = sos_symbol_gaps_skipped [OF h, of beacon_start]
  from t m have g: "transmit_symbol 200 beacon_start = beacon_start" by blast
  from t have "signal (transmit_sos beacon_start) =
     signal beacon_start @
     [(1, LEDC_DUTY, 200), (1, LEDC_DUTY, 200), (1, LEDC_DUTY, 200), (0, 0, 600),
      (1, LEDC_DUTY, 600), (1, LEDC_DUTY, 600), (1, LEDC_DUTY, 600), (0, 0, 600),
      (1, LEDC_DUTY, 200), (1, LEDC_DUTY, 200), (1, LEDC_DUTY, 200), (0, 0, 1400)]"
    by blast
  then have s: "signal (transmit_sos beacon_start) =
     [(1, LEDC_DUTY, 200), (1, LEDC_DUTY, 200), (1, LEDC_DUTY, 200), (0, 0, 600),
      (1, LEDC_DUTY, 600), (1, LEDC_DUTY, 600), (1, LEDC_DUTY, 600), (0, 0, 600),
      (1, LEDC_DUTY, 200), (1, LEDC_DUTY, 200), (1, LEDC_DUTY, 200), (0, 0, 1400)]"
    by (simp only: e append_Nil)
  from t have c: "c_string (morse_buffer (transmit_sos beacon_start)) = ''... --- ...''"
    by blast
  from h m g s c show ?thesis by blast
qed

end
